theory Spec2Isabelle
  imports Main "HOL-Library.Word"
begin

section \<open>Four-state integers (SVInt)\<close>

text \<open>
  The implementation of \<^verbatim>\<open>SVInt\<close> and \<^verbatim>\<open>logic_t\<close> is not among the source files;
  only the evaluation tests that use them are. The definitions of this section follow
  the specification (sections 3.7 and 4.6).
\<close>

datatype logic_t = L0 | L1 | LX | LZ

text \<open>
  Modelled from the spec: \<^verbatim>\<open>SVInt\<close>, "an arbitrary-precision integer with per-bit
  four-state encoding", with a bit width and a signedness flag. The bits are listed
  least significant first; the bit width is the length of the list.
\<close>

record SVInt =
  bits :: "logic_t list"
  signFlag :: bool

definition getBitWidth :: "SVInt \<Rightarrow> nat" where
  "getBitWidth v = length (bits v)"

definition isUnknownBit :: "logic_t \<Rightarrow> bool" where
  "isUnknownBit b = (b = LX \<or> b = LZ)"

definition hasUnknown :: "SVInt \<Rightarrow> bool" where
  "hasUnknown v = list_ex isUnknownBit (bits v)"

fun bitsToNat :: "logic_t list \<Rightarrow> nat" where
  "bitsToNat [] = 0"
| "bitsToNat (b # bs) = (if b = L1 then 1 else 0) + 2 * bitsToNat bs"

text \<open>The numeric value of a two-state value: two's complement when the sign flag is set.\<close>

definition toInt :: "SVInt \<Rightarrow> int" where
  "toInt v =
     (if signFlag v \<and> bits v \<noteq> [] \<and> last (bits v) = L1
      then int (bitsToNat (bits v)) - 2 ^ length (bits v)
      else int (bitsToNat (bits v)))"

text \<open>
  Modelled from the spec: the comparison \<^verbatim>\<open>operator!=\<close> of \<^verbatim>\<open>SVInt\<close>, which yields a
  \<^verbatim>\<open>logic_t\<close>: "if any operand bit is X/Z, arithmetic, relational and logical results
  propagate X".
\<close>

definition svint_ne :: "SVInt \<Rightarrow> SVInt \<Rightarrow> logic_t" where
  "svint_ne a b =
     (if hasUnknown a \<or> hasUnknown b then LX
      else if toInt a \<noteq> toInt b then L1 else L0)"

text \<open>
  Modelled from the spec: the conversion of a \<^verbatim>\<open>logic_t\<close> to \<^verbatim>\<open>bool\<close> that a C++
  \<^verbatim>\<open>if\<close> applies; only a known 1 is true.
\<close>

definition logic_to_bool :: "logic_t \<Rightarrow> bool" where
  "logic_to_bool b = (b = L1)"

subsection \<open>Constant evaluation\<close>

text \<open>
  Modelled from the spec: the evaluator of bound expressions and the \<^verbatim>\<open>SVInt\<close>
  operations it uses are not among the source files (the tests of the scripting
  session are). What follows is section 4.6 of the specification, for the operators
  that the evaluation test \<^verbatim>\<open>conditionalU2\<close> uses.
\<close>

text \<open>A value of the given width with every bit X.\<close>

definition allX :: "nat \<Rightarrow> bool \<Rightarrow> SVInt" where
  "allX w s = \<lparr>bits = replicate w LX, signFlag = s\<rparr>"

fun natToBits :: "nat \<Rightarrow> nat \<Rightarrow> logic_t list" where
  "natToBits 0 n = []"
| "natToBits (Suc w) n = (if odd n then L1 else L0) # natToBits w (n div 2)"

text \<open>The two-state value of the given width that holds an integer, modulo \<open>2 ^ w\<close>.\<close>

definition fromInt :: "nat \<Rightarrow> bool \<Rightarrow> int \<Rightarrow> SVInt" where
  "fromInt w s i = \<lparr>bits = natToBits w (nat (i mod 2 ^ w)), signFlag = s\<rparr>"

text \<open>Integer division that truncates towards zero.\<close>

definition truncDiv :: "int \<Rightarrow> int \<Rightarrow> int" where
  "truncDiv a b = (if (a < 0) = (b < 0) then \<bar>a\<bar> div \<bar>b\<bar> else - (\<bar>a\<bar> div \<bar>b\<bar>))"

text \<open>
  Modelled from the spec: division. "The evaluator never re-widens; it asserts equal
  widths at binary operations" (a failed assertion is \<open>None\<close>); "if any operand bit is
  X/Z, arithmetic ... results propagate X"; "division or modulo by zero yields all-X of
  the result width with no exception".
\<close>

definition svint_div :: "SVInt \<Rightarrow> SVInt \<Rightarrow> SVInt option" where
  "svint_div a b =
     (if getBitWidth a \<noteq> getBitWidth b then None
      else if hasUnknown a \<or> hasUnknown b \<or> toInt b = 0
        then Some (allX (getBitWidth a) (signFlag a \<and> signFlag b))
      else Some (fromInt (getBitWidth a) (signFlag a \<and> signFlag b)
                   (truncDiv (toInt a) (toInt b))))"

text \<open>
  Modelled from the spec: the merge of the two branches of a conditional whose
  condition is unknown, "bits that agree keep their value; bits that disagree become
  X".
\<close>

definition mergeBit :: "logic_t \<Rightarrow> logic_t \<Rightarrow> logic_t" where
  "mergeBit x y = (if x = y then x else LX)"

definition svint_merge :: "SVInt \<Rightarrow> SVInt \<Rightarrow> SVInt option" where
  "svint_merge t f =
     (if getBitWidth t \<noteq> getBitWidth f then None
      else Some \<lparr>bits = map2 mergeBit (bits t) (bits f),
                  signFlag = signFlag t \<and> signFlag f\<rparr>)"

text \<open>The bound expressions of the test.\<close>

datatype Expression =
    IntegerLiteral SVInt
  | Divide Expression Expression
  | ConditionalOp Expression Expression Expression

text \<open>
  Modelled from the spec: evaluation. A conditional evaluates its condition first; with
  a known condition only the selected branch is evaluated, with an unknown one both
  are and their values are merged.
\<close>

fun eval :: "Expression \<Rightarrow> SVInt option" where
  "eval (IntegerLiteral v) = Some v"
| "eval (Divide a b) =
     (case eval a of None \<Rightarrow> None
      | Some av \<Rightarrow> (case eval b of None \<Rightarrow> None | Some bv \<Rightarrow> svint_div av bv))"
| "eval (ConditionalOp c t f) =
     (case eval c of None \<Rightarrow> None
      | Some cv \<Rightarrow>
          if hasUnknown cv then
            (case eval t of None \<Rightarrow> None
             | Some tv \<Rightarrow> (case eval f of None \<Rightarrow> None | Some fv \<Rightarrow> svint_merge tv fv))
          else if toInt cv \<noteq> 0 then eval t
          else eval f)"

text \<open>
  Literals: an unsized decimal literal is a signed value of 32 bits; a sized binary
  literal \<^verbatim>\<open>w'b...\<close> is an unsigned value of \<open>w\<close> bits, its digits given here most
  significant first and extended with zeros.
\<close>

definition decimalLiteral :: "nat \<Rightarrow> Expression" where
  "decimalLiteral n = IntegerLiteral (fromInt 32 True (int n))"

definition binaryLiteral :: "nat \<Rightarrow> logic_t list \<Rightarrow> Expression" where
  "binaryLiteral w ds =
     IntegerLiteral \<lparr>bits = take w (rev ds @ replicate (w - length ds) L0), signFlag = False\<rparr>"

text \<open>\<^verbatim>\<open>(1 / 0) ? 128'b101 : 128'b110\<close>\<close>

definition conditionalU2 :: Expression where
  "conditionalU2 =
     ConditionalOp (Divide (decimalLiteral 1) (decimalLiteral 0))
       (binaryLiteral 128 [L1, L0, L1]) (binaryLiteral 128 [L1, L1, L0])"

section \<open>Types (Type.cpp)\<close>

datatype SymbolKind =
    K_Root | K_CompilationUnit | K_Package | K_Definition | K_InstanceBody
  | K_Subroutine | K_StatementBlock | K_GenerateBlock
  | K_PredefinedIntegerType | K_ScalarType | K_FloatingType | K_EnumType
  | K_PackedArrayType | K_FixedSizeUnpackedArrayType | K_DynamicArrayType
  | K_AssociativeArrayType | K_QueueType | K_PackedStructType | K_UnpackedStructType
  | K_PackedUnionType | K_UnpackedUnionType | K_ClassType | K_VoidType | K_NullType
  | K_CHandleType | K_StringType | K_EventType | K_UnboundedType | K_TypeRefType
  | K_UntypedType | K_SequenceType | K_PropertyType | K_VirtualInterfaceType
  | K_TypeAlias | K_ErrorType

text \<open>
  A scope is known by its identity and by the kind of the symbol that owns it
  (\<^verbatim>\<open>scope->asSymbol().kind\<close>).
\<close>

record Scope =
  scopeId :: nat
  asSymbolKind :: SymbolKind

text \<open>
  What every symbol carries. C++ compares type objects by address; here an object is
  its whole value, and \<open>objectId\<close> tells apart two separately allocated objects of
  equal content, so that pointer equality is equality of values. \<open>getSyntax\<close> is the
  syntax node the symbol was created from (a null pointer is \<open>None\<close>), and
  \<open>getParentScope\<close> the scope that holds the symbol.
\<close>

record SymbolBase =
  objectId :: nat
  getSyntax :: "nat option"
  getParentScope :: "Scope option"

text \<open>The fields of the C++ base class \<^verbatim>\<open>IntegralType\<close>.\<close>

record IntegralInfo =
  bitWidth :: nat
  isSigned :: bool
  isFourState :: bool

text \<open>A range \<^verbatim>\<open>[left:right]\<close>.\<close>

record ConstantRange =
  left :: int
  right :: int

text \<open>
  Modelled from the spec: \<^verbatim>\<open>ConstantRange::width\<close>, declared outside the source files;
  the range is "an inclusive integer range [left:right]".
\<close>

definition width :: "ConstantRange \<Rightarrow> nat" where
  "width r = nat \<bar>left r - right r\<bar> + 1"

datatype IntegerKind = IK_ShortInt | IK_Int | IK_LongInt | IK_Byte | IK_Integer | IK_Time
datatype ScalarKind = Bit | Logic | Reg
datatype FloatKind = FK_Real | FK_ShortReal | FK_RealTime

text \<open>
  The value of an enum member is an integer or bad (the error value); enum members
  hold no other kind of constant.
\<close>

datatype ConstantValue = CV_Bad | CV_Integer SVInt

fun bad :: "ConstantValue \<Rightarrow> bool" where
  "bad CV_Bad = True"
| "bad (CV_Integer v) = False"

record EnumValueSymbol =
  name :: string
  getValue :: ConstantValue

text \<open>The kinds of the types that have no fields of their own.\<close>

datatype SimpleKind =
    Void | Null | CHandle | String | Event | Unbounded | TypeRef | Untyped
  | Sequence | Property

text \<open>
  The type objects, one constructor for each kind of type. Struct, union and class
  types are compared by identity only, so their members are left out.
\<close>

datatype Type =
    PredefinedIntegerType SymbolBase IntegralInfo IntegerKind
  | ScalarType SymbolBase IntegralInfo ScalarKind
  | FloatingType SymbolBase FloatKind
  | EnumType SymbolBase IntegralInfo Type "EnumValueSymbol list"
  | PackedArrayType SymbolBase IntegralInfo Type ConstantRange
  | FixedSizeUnpackedArrayType SymbolBase Type ConstantRange
  | DynamicArrayType SymbolBase Type
  | AssociativeArrayType SymbolBase Type "Type option"
  | QueueType SymbolBase Type nat
  | PackedStructType SymbolBase IntegralInfo
  | UnpackedStructType SymbolBase
  | PackedUnionType SymbolBase IntegralInfo
  | UnpackedUnionType SymbolBase
  | ClassType SymbolBase
  | SimpleType SymbolBase SimpleKind
  | VirtualInterfaceType SymbolBase nat "nat option"
  | TypeAlias SymbolBase Type
  | ErrorType SymbolBase

fun simpleKind :: "SimpleKind \<Rightarrow> SymbolKind" where
  "simpleKind Void = K_VoidType"
| "simpleKind Null = K_NullType"
| "simpleKind CHandle = K_CHandleType"
| "simpleKind String = K_StringType"
| "simpleKind Event = K_EventType"
| "simpleKind Unbounded = K_UnboundedType"
| "simpleKind TypeRef = K_TypeRefType"
| "simpleKind Untyped = K_UntypedType"
| "simpleKind Sequence = K_SequenceType"
| "simpleKind Property = K_PropertyType"

fun kind :: "Type \<Rightarrow> SymbolKind" where
  "kind (PredefinedIntegerType s i k) = K_PredefinedIntegerType"
| "kind (ScalarType s i k) = K_ScalarType"
| "kind (FloatingType s k) = K_FloatingType"
| "kind (EnumType s i b vs) = K_EnumType"
| "kind (PackedArrayType s i e r) = K_PackedArrayType"
| "kind (FixedSizeUnpackedArrayType s e r) = K_FixedSizeUnpackedArrayType"
| "kind (DynamicArrayType s e) = K_DynamicArrayType"
| "kind (AssociativeArrayType s e ix) = K_AssociativeArrayType"
| "kind (QueueType s e m) = K_QueueType"
| "kind (PackedStructType s i) = K_PackedStructType"
| "kind (UnpackedStructType s) = K_UnpackedStructType"
| "kind (PackedUnionType s i) = K_PackedUnionType"
| "kind (UnpackedUnionType s) = K_UnpackedUnionType"
| "kind (ClassType s) = K_ClassType"
| "kind (SimpleType s k) = simpleKind k"
| "kind (VirtualInterfaceType s i m) = K_VirtualInterfaceType"
| "kind (TypeAlias s t) = K_TypeAlias"
| "kind (ErrorType s) = K_ErrorType"

fun symbolBase :: "Type \<Rightarrow> SymbolBase" where
  "symbolBase (PredefinedIntegerType s i k) = s"
| "symbolBase (ScalarType s i k) = s"
| "symbolBase (FloatingType s k) = s"
| "symbolBase (EnumType s i b vs) = s"
| "symbolBase (PackedArrayType s i e r) = s"
| "symbolBase (FixedSizeUnpackedArrayType s e r) = s"
| "symbolBase (DynamicArrayType s e) = s"
| "symbolBase (AssociativeArrayType s e ix) = s"
| "symbolBase (QueueType s e m) = s"
| "symbolBase (PackedStructType s i) = s"
| "symbolBase (UnpackedStructType s) = s"
| "symbolBase (PackedUnionType s i) = s"
| "symbolBase (UnpackedUnionType s) = s"
| "symbolBase (ClassType s) = s"
| "symbolBase (SimpleType s k) = s"
| "symbolBase (VirtualInterfaceType s i m) = s"
| "symbolBase (TypeAlias s t) = s"
| "symbolBase (ErrorType s) = s"

text \<open>
  \<^verbatim>\<open>Type::resolveCanonical\<close>: follow the targets of type aliases until the type is no
  alias.
\<close>

fun getCanonicalType :: "Type \<Rightarrow> Type" where
  "getCanonicalType (TypeAlias s t) = getCanonicalType t"
| "getCanonicalType t = t"

text \<open>
  \<^verbatim>\<open>as<IntegralType>()\<close>: the fields of the base class \<^verbatim>\<open>IntegralType\<close>, which the
  predefined integer, scalar, enum, packed array, packed struct and packed union types
  derive from; \<open>None\<close> for every other type.
\<close>

fun asIntegralType :: "Type \<Rightarrow> IntegralInfo option" where
  "asIntegralType (PredefinedIntegerType s i k) = Some i"
| "asIntegralType (ScalarType s i k) = Some i"
| "asIntegralType (EnumType s i b vs) = Some i"
| "asIntegralType (PackedArrayType s i e r) = Some i"
| "asIntegralType (PackedStructType s i) = Some i"
| "asIntegralType (PackedUnionType s i) = Some i"
| "asIntegralType t = None"

text \<open>
  \<^verbatim>\<open>IntegralType::isKind\<close> is declared outside the source files. It holds of the
  kinds of the classes derived from \<^verbatim>\<open>IntegralType\<close>; that enum types are among them
  shows in \<^verbatim>\<open>isEquivalent\<close>, \<^verbatim>\<open>isAssignmentCompatible\<close> and \<^verbatim>\<open>isCastCompatible\<close>,
  which test \<^verbatim>\<open>isIntegral() && !isEnum()\<close>.
\<close>

definition IntegralType_isKind :: "SymbolKind \<Rightarrow> bool" where
  "IntegralType_isKind k =
     (k = K_PredefinedIntegerType \<or> k = K_ScalarType \<or> k = K_EnumType \<or>
      k = K_PackedArrayType \<or> k = K_PackedStructType \<or> k = K_PackedUnionType)"

definition isIntegral :: "Type \<Rightarrow> bool" where
  "isIntegral t = IntegralType_isKind (kind (getCanonicalType t))"

definition isEnum :: "Type \<Rightarrow> bool" where
  "isEnum t = (kind (getCanonicalType t) = K_EnumType)"

definition isFloating :: "Type \<Rightarrow> bool" where
  "isFloating t = (kind (getCanonicalType t) = K_FloatingType)"

definition isPredefinedInteger :: "Type \<Rightarrow> bool" where
  "isPredefinedInteger t = (kind (getCanonicalType t) = K_PredefinedIntegerType)"

definition isScalar :: "Type \<Rightarrow> bool" where
  "isScalar t = (kind (getCanonicalType t) = K_ScalarType)"

definition isPackedArray :: "Type \<Rightarrow> bool" where
  "isPackedArray t = (kind (getCanonicalType t) = K_PackedArrayType)"

definition isVirtualInterface :: "Type \<Rightarrow> bool" where
  "isVirtualInterface t = (kind (getCanonicalType t) = K_VirtualInterfaceType)"

text \<open>\<^verbatim>\<open>as<FloatingType>().floatKind\<close>.\<close>

fun asFloatKind :: "Type \<Rightarrow> FloatKind option" where
  "asFloatKind (FloatingType s k) = Some k"
| "asFloatKind t = None"

definition isSimpleBitVector :: "Type \<Rightarrow> bool" where
  "isSimpleBitVector t =
     (let ct = getCanonicalType t in
      if isPredefinedInteger ct \<or> isScalar ct then True
      else (case ct of PackedArrayType s i e r \<Rightarrow> isScalar e | _ \<Rightarrow> False))"

definition isArray :: "Type \<Rightarrow> bool" where
  "isArray t =
     (let k = kind (getCanonicalType t) in
      k = K_PackedArrayType \<or> k = K_FixedSizeUnpackedArrayType \<or> k = K_DynamicArrayType \<or>
      k = K_AssociativeArrayType \<or> k = K_QueueType)"

definition isUnpackedArray :: "Type \<Rightarrow> bool" where
  "isUnpackedArray t =
     (let k = kind (getCanonicalType t) in
      k = K_FixedSizeUnpackedArrayType \<or> k = K_DynamicArrayType \<or>
      k = K_AssociativeArrayType \<or> k = K_QueueType)"

text \<open>\<^verbatim>\<open>Type::getArrayElementType\<close>; the null pointer is \<open>None\<close>.\<close>

definition getArrayElementType :: "Type \<Rightarrow> Type option" where
  "getArrayElementType t =
     (case getCanonicalType t of
        PackedArrayType s i e r \<Rightarrow> Some e
      | FixedSizeUnpackedArrayType s e r \<Rightarrow> Some e
      | DynamicArrayType s e \<Rightarrow> Some e
      | AssociativeArrayType s e ix \<Rightarrow> Some e
      | QueueType s e m \<Rightarrow> Some e
      | _ \<Rightarrow> None)"

text \<open>\<^verbatim>\<open>Type::getAssociativeIndexType\<close>; the null pointer is \<open>None\<close>.\<close>

definition getAssociativeIndexType :: "Type \<Rightarrow> Type option" where
  "getAssociativeIndexType t =
     (case getCanonicalType t of
        AssociativeArrayType s e ix \<Rightarrow> ix
      | _ \<Rightarrow> None)"

text \<open>
  The \<^verbatim>\<open>range\<close> field of a packed array or of a fixed-size unpacked array type.
\<close>

fun arrayRange :: "Type \<Rightarrow> ConstantRange option" where
  "arrayRange (PackedArrayType s i e r) = Some r"
| "arrayRange (FixedSizeUnpackedArrayType s e r) = Some r"
| "arrayRange t = None"


text \<open>\<^verbatim>\<open>as<FixedSizeUnpackedArrayType>()\<close>: the element type and the range.\<close>

fun asFixedSizeUnpackedArrayType :: "Type \<Rightarrow> (Type \<times> ConstantRange) option" where
  "asFixedSizeUnpackedArrayType (FixedSizeUnpackedArrayType s e r) = Some (e, r)"
| "asFixedSizeUnpackedArrayType t = None"

text \<open>\<^verbatim>\<open>as<VirtualInterfaceType>()\<close>: the interface instance and the modport.\<close>

fun asVirtualInterfaceType :: "Type \<Rightarrow> (nat \<times> nat option) option" where
  "asVirtualInterfaceType (VirtualInterfaceType s iface modport) = Some (iface, modport)"
| "asVirtualInterfaceType t = None"

text \<open>\<^verbatim>\<open>as<EnumType>()\<close>: the base type and the values.\<close>

fun asEnumType :: "Type \<Rightarrow> (Type \<times> EnumValueSymbol list) option" where
  "asEnumType (EnumType s i baseType vs) = Some (baseType, vs)"
| "asEnumType t = None"

text \<open>
  \<^verbatim>\<open>IntegralType::getBitVectorRange\<close> is declared outside the source files, so
  \<^verbatim>\<open>isMatching\<close> and the functions that call it take it as the parameter \<open>bvr\<close>.
  Where a concrete function is needed the following one is used: a packed array type
  has the range it holds, any other integral type \<^verbatim>\<open>[bitWidth - 1 : 0]\<close>.
\<close>

definition getBitVectorRange :: "Type \<Rightarrow> ConstantRange" where
  "getBitVectorRange t =
     (case t of
        PackedArrayType s i e r \<Rightarrow> r
      | _ \<Rightarrow> (case asIntegralType t of
                Some i \<Rightarrow> \<lparr>left = int (bitWidth i) - 1, right = 0\<rparr>
              | None \<Rightarrow> \<lparr>left = 0, right = 0\<rparr>))"

text \<open>
  The loop of \<^verbatim>\<open>isSameEnum\<close> over the values of the two enums: the left values are
  walked with \<^verbatim>\<open>rit\<close> running over the right ones; at the end \<^verbatim>\<open>rit\<close> must have
  reached the end too.
\<close>

fun sameValues :: "EnumValueSymbol list \<Rightarrow> EnumValueSymbol list \<Rightarrow> bool" where
  "sameValues [] rr = (rr = [])"
| "sameValues (v # ls) [] = False"
| "sameValues (v # ls) (rv # rr) =
     (if name v \<noteq> name rv then False
      else (case (getValue v, getValue rv) of
              (CV_Integer lv, CV_Integer rv') \<Rightarrow>
                 if logic_to_bool (svint_ne lv rv') then False else sameValues ls rr
            | _ \<Rightarrow> False))"

text \<open>
  \<^verbatim>\<open>Type::isMatching\<close> and \<^verbatim>\<open>isSameEnum\<close>. The accessors return \<open>None\<close> where the
  C++ would dereference a null pointer or cast to the wrong class; the guards of the
  source exclude those branches.
\<close>

function isMatching :: "(Type \<Rightarrow> ConstantRange) \<Rightarrow> Type \<Rightarrow> Type \<Rightarrow> bool"
  and isSameEnum :: "(Type \<Rightarrow> ConstantRange) \<Rightarrow> Type \<Rightarrow> Type \<Rightarrow> bool"
where
  "isMatching bvr lhs rhs =
     (let l = getCanonicalType lhs; r = getCanonicalType rhs in
      if l = r \<or> (getSyntax (symbolBase l) \<noteq> None \<and>
                   getSyntax (symbolBase l) = getSyntax (symbolBase r)) then True
      else if isFloating l \<and> isFloating r then
        (case (asFloatKind l, asFloatKind r) of
           (Some lf, Some rf) \<Rightarrow>
             (lf = FK_Real \<or> lf = FK_RealTime) \<and> (rf = FK_Real \<or> rf = FK_RealTime)
         | _ \<Rightarrow> False)
      else if isSimpleBitVector l \<and> isSimpleBitVector r \<and>
              (\<not> isPackedArray l \<or> \<not> isPackedArray r) then
        (case (asIntegralType l, asIntegralType r) of
           (Some li, Some ri) \<Rightarrow>
             isSigned li = isSigned ri \<and> isFourState li = isFourState ri \<and> bvr l = bvr r
         | _ \<Rightarrow> False)
      else if isArray l \<and> isArray r then
        (case (getArrayElementType l, getArrayElementType r) of
           (Some le, Some re) \<Rightarrow>
             if kind l \<noteq> kind r then False
             else if \<not> isMatching bvr le re then False
             else if kind l = K_PackedArrayType \<and> arrayRange l \<noteq> arrayRange r then False
             else if kind l = K_FixedSizeUnpackedArrayType \<and> arrayRange l \<noteq> arrayRange r
               then False
             else if kind l = K_AssociativeArrayType then
               (case (getAssociativeIndexType l, getAssociativeIndexType r) of
                  (Some li, Some ri) \<Rightarrow> isMatching bvr li ri
                | (Some li, None) \<Rightarrow> False
                | (None, Some ri) \<Rightarrow> False
                | (None, None) \<Rightarrow> True)
             else True
         | _ \<Rightarrow> False)
      else if kind l = K_EnumType \<and> kind r = K_EnumType then isSameEnum bvr l r
      else if isVirtualInterface l \<and> isVirtualInterface r then
        (case (asVirtualInterfaceType l, asVirtualInterfaceType r) of
           (Some (liface, lmodport), Some (riface, rmodport)) \<Rightarrow>
             liface = riface \<and> lmodport = rmodport
         | _ \<Rightarrow> False)
      else False)"
| "isSameEnum bvr le re =
     (case (getParentScope (symbolBase le), getParentScope (symbolBase re)) of
        (Some ls, Some rs) \<Rightarrow>
          if asSymbolKind ls \<noteq> K_CompilationUnit then False
          else if asSymbolKind rs \<noteq> K_CompilationUnit then False
          else (case (asEnumType le, asEnumType re) of
                  (Some (lbase, lvalues), Some (rbase, rvalues)) \<Rightarrow>
                    if \<not> isMatching bvr lbase rbase then False
                    else sameValues lvalues rvalues
                | _ \<Rightarrow> False)
      | _ \<Rightarrow> False)"
  by pat_completeness auto
termination
proof (relation "measure (\<lambda>x. case x of
            Inl (bvr, a, b) \<Rightarrow> 2 * (size a + size b) + 1
          | Inr (bvr, a, b) \<Rightarrow> 2 * (size a + size b))", goal_cases)
  have canon: "size (getCanonicalType t) \<le> size t" for t
    by (induction t rule: getCanonicalType.induct) auto
  have elem: "size e < size t" if "getArrayElementType t = Some e" for t e
    using that canon [of t] by (auto simp: getArrayElementType_def split: Type.splits)
  have index: "size e < size t" if "getAssociativeIndexType t = Some e" for t e
    using that canon [of t] by (auto simp: getAssociativeIndexType_def split: Type.splits)
  have base: "size b < size t" if "asEnumType t = Some (b, vs)" for t b vs
    using that by (cases t) auto
  {
    case 1
    show ?case by simp
  next
    case (2 bvr lhs rhs l r p q le re)
    then show ?case
      using canon [of lhs] canon [of rhs] elem [of l le] elem [of r re] by simp
  next
    case (3 bvr lhs rhs l r p q le re p' q' li ri)
    then show ?case
      using canon [of lhs] canon [of rhs] index [of l li] index [of r ri] by simp
  next
    case (4 bvr lhs rhs l r)
    then show ?case
      using canon [of lhs] canon [of rhs] by simp
  next
    case 5
    then show ?case
      by (auto dest!: base sym [of "Some _" "asEnumType _"])
  }
qed

declare isMatching.simps [simp del] isSameEnum.simps [simp del]

text \<open>\<^verbatim>\<open>Type::isEquivalent\<close>.\<close>

function isEquivalent :: "(Type \<Rightarrow> ConstantRange) \<Rightarrow> Type \<Rightarrow> Type \<Rightarrow> bool" where
  "isEquivalent bvr lhs rhs =
     (let l = getCanonicalType lhs; r = getCanonicalType rhs in
      if isMatching bvr l r then True
      else if isIntegral l \<and> isIntegral r \<and> \<not> isEnum l \<and> \<not> isEnum r then
        (case (asIntegralType l, asIntegralType r) of
           (Some li, Some ri) \<Rightarrow>
             isSigned li = isSigned ri \<and> isFourState li = isFourState ri \<and>
             bitWidth li = bitWidth ri
         | _ \<Rightarrow> False)
      else if kind l = K_FixedSizeUnpackedArrayType \<and>
              kind r = K_FixedSizeUnpackedArrayType then
        (case (asFixedSizeUnpackedArrayType l, asFixedSizeUnpackedArrayType r) of
           (Some (lelem, lrange), Some (relem, rrange)) \<Rightarrow>
             width lrange = width rrange \<and> isEquivalent bvr lelem relem
         | _ \<Rightarrow> False)
      else if isUnpackedArray l \<and> kind l = kind r then
        (if kind l = K_AssociativeArrayType \<and>
            (case (getAssociativeIndexType l, getAssociativeIndexType r) of
               (Some li, Some ri) \<Rightarrow> \<not> isEquivalent bvr li ri
             | (Some li, None) \<Rightarrow> True
             | (None, Some ri) \<Rightarrow> True
             | (None, None) \<Rightarrow> False)
         then False
         else (case (getArrayElementType l, getArrayElementType r) of
                 (Some le, Some re) \<Rightarrow> isEquivalent bvr le re
               | _ \<Rightarrow> False))
      else False)"
  by pat_completeness auto
termination
proof (relation "measure (\<lambda>(bvr, a, b). size a + size b)", goal_cases)
  have canon: "size (getCanonicalType t) \<le> size t" for t
    by (induction t rule: getCanonicalType.induct) auto
  have elem: "size e < size t" if "getArrayElementType t = Some e" for t e
    using that canon [of t] by (auto simp: getArrayElementType_def split: Type.splits)
  have index: "size e < size t" if "getAssociativeIndexType t = Some e" for t e
    using that canon [of t] by (auto simp: getAssociativeIndexType_def split: Type.splits)
  have fixed: "size e < size t" if "asFixedSizeUnpackedArrayType t = Some (e, r)" for t e r
    using that by (cases t) auto
  {
    case 1
    show ?case by simp
  next
    case (2 bvr lhs rhs l r)
    then show ?case
      using canon [of lhs] canon [of rhs]
      by (auto dest!: fixed sym [of "Some _" "asFixedSizeUnpackedArrayType _"])
  next
    case (3 bvr lhs rhs l r)
    then show ?case
      using canon [of lhs] canon [of rhs]
      by (auto dest!: index sym [of "Some _" "getAssociativeIndexType _"])
  next
    case (4 bvr lhs rhs l r)
    then show ?case
      using canon [of lhs] canon [of rhs]
      by (auto dest!: elem sym [of "Some _" "getArrayElementType _"])
  }
qed

declare isEquivalent.simps [simp del]


subsection \<open>Example types\<close>

text \<open>The predefined type \<^verbatim>\<open>int\<close>.\<close>

definition ex_int :: Type where
  "ex_int = PredefinedIntegerType \<lparr>objectId = 0, getSyntax = None, getParentScope = None\<rparr>
     \<lparr>bitWidth = 32, isSigned = True, isFourState = False\<rparr> IK_Int"




text \<open>
  The enum \<^verbatim>\<open>enum int { A = 0, B = 1 }\<close>, declared once in each of two compilation
  units (syntax nodes 20 and 21) and once in each of two modules (nodes 22 and 23).
\<close>

definition ex_values :: "EnumValueSymbol list" where
  "ex_values =
     [\<lparr>name = ''A'', getValue = CV_Integer \<lparr>bits = replicate 32 L0, signFlag = True\<rparr>\<rparr>,
      \<lparr>name = ''B'', getValue = CV_Integer \<lparr>bits = L1 # replicate 31 L0, signFlag = True\<rparr>\<rparr>]"

definition ex_enum_unit1 :: Type where
  "ex_enum_unit1 = EnumType
     \<lparr>objectId = 10, getSyntax = Some 20,
      getParentScope = Some \<lparr>scopeId = 1, asSymbolKind = K_CompilationUnit\<rparr>\<rparr>
     \<lparr>bitWidth = 32, isSigned = True, isFourState = False\<rparr> ex_int ex_values"

definition ex_enum_unit2 :: Type where
  "ex_enum_unit2 = EnumType
     \<lparr>objectId = 11, getSyntax = Some 21,
      getParentScope = Some \<lparr>scopeId = 2, asSymbolKind = K_CompilationUnit\<rparr>\<rparr>
     \<lparr>bitWidth = 32, isSigned = True, isFourState = False\<rparr> ex_int ex_values"

definition ex_enum_module1 :: Type where
  "ex_enum_module1 = EnumType
     \<lparr>objectId = 12, getSyntax = Some 22,
      getParentScope = Some \<lparr>scopeId = 3, asSymbolKind = K_InstanceBody\<rparr>\<rparr>
     \<lparr>bitWidth = 32, isSigned = True, isFourState = False\<rparr> ex_int ex_values"

definition ex_enum_module2 :: Type where
  "ex_enum_module2 = EnumType
     \<lparr>objectId = 13, getSyntax = Some 23,
      getParentScope = Some \<lparr>scopeId = 4, asSymbolKind = K_InstanceBody\<rparr>\<rparr>
     \<lparr>bitWidth = 32, isSigned = True, isFourState = False\<rparr> ex_int ex_values"

text \<open>
  A dynamic array of \<^verbatim>\<open>int\<close> and a dynamic array of the first enum declared in a
  module.
\<close>

definition ex_dynamic1 :: Type where
  "ex_dynamic1 = DynamicArrayType
     \<lparr>objectId = 30, getSyntax = Some 40, getParentScope = None\<rparr> ex_int"

definition ex_dynamic2 :: Type where
  "ex_dynamic2 = DynamicArrayType
     \<lparr>objectId = 31, getSyntax = Some 41, getParentScope = None\<rparr> ex_enum_module1"

section \<open>Source locations and the source manager (SourceLocation.h, SourceManager.cpp)\<close>

text \<open>
  A \<^verbatim>\<open>BufferID\<close> holds a \<^verbatim>\<open>uint32_t\<close>; a \<^verbatim>\<open>SourceLocation\<close> packs a buffer ID into
  28 bits and a character offset into 36 bits. Both are natural numbers here, cut to
  their width where the C++ converts.
\<close>

definition BufferID :: "nat \<Rightarrow> nat" where
  "BufferID v = v mod 2 ^ 32"

record SourceLocation =
  bufferID :: nat
  charOffset :: nat

text \<open>The constructor \<^verbatim>\<open>SourceLocation(BufferID buffer, size_t offset)\<close>.\<close>

definition mkSourceLocation :: "nat \<Rightarrow> nat \<Rightarrow> SourceLocation" where
  "mkSourceLocation b off = \<lparr>bufferID = b mod 2 ^ 28, charOffset = off mod 2 ^ 36\<rparr>"

text \<open>The default constructor: buffer 0, offset 0.\<close>

definition noSourceLocation :: SourceLocation where
  "noSourceLocation = \<lparr>bufferID = 0, charOffset = 0\<rparr>"

definition NoLocation :: SourceLocation where
  "NoLocation = mkSourceLocation (BufferID (2 ^ 28 - 1)) (2 ^ 36 - 1)"

definition buffer :: "SourceLocation \<Rightarrow> nat" where
  "buffer loc = BufferID (bufferID loc)"

definition offset :: "SourceLocation \<Rightarrow> nat" where
  "offset loc = charOffset loc"

text \<open>\<^verbatim>\<open>BufferID::valid\<close> and \<^verbatim>\<open>SourceLocation::valid\<close>.\<close>

definition validID :: "nat \<Rightarrow> bool" where
  "validID b = (b \<noteq> 0)"

definition valid :: "SourceLocation \<Rightarrow> bool" where
  "valid loc = validID (buffer loc)"

record SourceRange =
  startLoc :: SourceLocation
  endLoc :: SourceLocation

text \<open>
  \<^verbatim>\<open>LineDirectiveInfo\<close>: the name given by a \<^verbatim>\<open>`line\<close> directive, the raw line of the
  file the directive is on, the line number the directive sets, and its level. The
  line numbers are \<^verbatim>\<open>size_t\<close>.
\<close>

record LineDirectiveInfo =
  directiveName :: string
  lineInFile :: "64 word"
  lineOfDirective :: "64 word"
  level :: nat

text \<open>
  \<^verbatim>\<open>FileData\<close>: the name and the bytes of a file (the bytes as numbers). Its vector
  \<^verbatim>\<open>lineOffsets\<close> is a cache that \<^verbatim>\<open>getRawLineNumber\<close> fills from the bytes, which
  never change, at the first request; here the offsets are computed at each request.
\<close>

record FileData =
  fileName :: string
  mem :: "nat list"

record FileInfo =
  data :: "FileData option"
  includedFrom :: SourceLocation
  lineDirectives :: "LineDirectiveInfo list"

record ExpansionInfo =
  originalLoc :: SourceLocation
  expansionRange :: SourceRange
  isMacroArg :: bool
  macroName :: string

text \<open>An entry of \<^verbatim>\<open>bufferEntries\<close>, a \<^verbatim>\<open>std::variant<FileInfo, ExpansionInfo>\<close>.\<close>

datatype BufferEntry = FileEntry FileInfo | ExpansionEntry ExpansionInfo

record SourceManager =
  bufferEntries :: "BufferEntry list"

record SourceBuffer =
  bufferData :: "nat list"
  id :: nat

text \<open>What a failed \<^verbatim>\<open>ASSERT\<close> and a \<^verbatim>\<open>std::get\<close> of the wrong alternative raise.\<close>

datatype error = AssertionFailed | BadVariantAccess

text \<open>The constructor: a dummy entry, so that the first buffer has the ID 1.\<close>

definition newSourceManager :: SourceManager where
  "newSourceManager =
     \<lparr>bufferEntries =
        [FileEntry \<lparr>data = None, includedFrom = noSourceLocation, lineDirectives = []\<rparr>]\<rparr>"

text \<open>\<^verbatim>\<open>SourceManager::createBufferEntry\<close>; \<open>fd\<close> is the file data the pointer refers to.\<close>

definition createBufferEntry ::
  "SourceManager \<Rightarrow> FileData \<Rightarrow> SourceLocation \<Rightarrow> SourceManager \<times> SourceBuffer" where
  "createBufferEntry sm fd includedFrom' =
     (let entries = bufferEntries sm @
            [FileEntry \<lparr>data = Some fd, includedFrom = includedFrom', lineDirectives = []\<rparr>]
      in (sm\<lparr>bufferEntries := entries\<rparr>,
          \<lparr>bufferData = mem fd, id = BufferID (length entries - 1)\<rparr>))"

text \<open>\<^verbatim>\<open>SourceManager::createExpansionLoc\<close>, for a macro argument and for a macro.\<close>

definition createExpansionLoc ::
  "SourceManager \<Rightarrow> SourceLocation \<Rightarrow> SourceRange \<Rightarrow> bool \<Rightarrow> SourceManager \<times> SourceLocation"
  where
  "createExpansionLoc sm originalLoc' expansionRange' isMacroArg' =
     (let entries = bufferEntries sm @
            [ExpansionEntry \<lparr>originalLoc = originalLoc', expansionRange = expansionRange',
               isMacroArg = isMacroArg', macroName = []\<rparr>]
      in (sm\<lparr>bufferEntries := entries\<rparr>,
          mkSourceLocation (BufferID (length entries - 1)) 0))"

definition createExpansionLocNamed ::
  "SourceManager \<Rightarrow> SourceLocation \<Rightarrow> SourceRange \<Rightarrow> string \<Rightarrow> SourceManager \<times> SourceLocation"
  where
  "createExpansionLocNamed sm originalLoc' expansionRange' macroName' =
     (let entries = bufferEntries sm @
            [ExpansionEntry \<lparr>originalLoc = originalLoc', expansionRange = expansionRange',
               isMacroArg = False, macroName = macroName'\<rparr>]
      in (sm\<lparr>bufferEntries := entries\<rparr>,
          mkSourceLocation (BufferID (length entries - 1)) 0))"

text \<open>
  \<^verbatim>\<open>SourceManager::getFileInfo\<close>, the \<^verbatim>\<open>const\<close> overload, which the queries below
  use: a null pointer (\<open>None\<close>) for an invalid ID, an ID out of range, and an
  expansion buffer.
\<close>

definition getFileInfo :: "SourceManager \<Rightarrow> nat \<Rightarrow> FileInfo option" where
  "getFileInfo sm b =
     (if \<not> validID b then None
      else if b \<ge> length (bufferEntries sm) then None
      else (case bufferEntries sm ! b of
              FileEntry info \<Rightarrow> Some info
            | ExpansionEntry info \<Rightarrow> None))"


definition isMacroLoc :: "SourceManager \<Rightarrow> SourceLocation \<Rightarrow> error + bool" where
  "isMacroLoc sm location =
     (if location = NoLocation then Inr False
      else let b = buffer location in
        if \<not> validID b then Inr False
        else if \<not> b < length (bufferEntries sm) then Inl AssertionFailed
        else (case bufferEntries sm ! b of
                FileEntry info \<Rightarrow> Inr False
              | ExpansionEntry info \<Rightarrow> Inr True))"

definition isMacroArgLoc :: "SourceManager \<Rightarrow> SourceLocation \<Rightarrow> error + bool" where
  "isMacroArgLoc sm location =
     (if location = NoLocation then Inr False
      else let b = buffer location in
        if \<not> validID b then Inr False
        else if \<not> b < length (bufferEntries sm) then Inl AssertionFailed
        else (case bufferEntries sm ! b of
                FileEntry info \<Rightarrow> Inr False
              | ExpansionEntry info \<Rightarrow> Inr (isMacroArg info)))"


definition getExpansionLoc :: "SourceManager \<Rightarrow> SourceLocation \<Rightarrow> error + SourceLocation" where
  "getExpansionLoc sm location =
     (let b = buffer location in
      if \<not> validID b then Inr noSourceLocation
      else if \<not> b < length (bufferEntries sm) then Inl AssertionFailed
      else (case bufferEntries sm ! b of
              FileEntry info \<Rightarrow> Inl BadVariantAccess
            | ExpansionEntry info \<Rightarrow> Inr (startLoc (expansionRange info))))"

text \<open>
  \<^verbatim>\<open>getOriginalLoc\<close> adds the offset to the original location with
  \<^verbatim>\<open>SourceLocation::operator+\<close>, in \<^verbatim>\<open>size_t\<close> arithmetic.
\<close>

definition getOriginalLoc :: "SourceManager \<Rightarrow> SourceLocation \<Rightarrow> error + SourceLocation" where
  "getOriginalLoc sm location =
     (let b = buffer location in
      if \<not> validID b then Inr noSourceLocation
      else if \<not> b < length (bufferEntries sm) then Inl AssertionFailed
      else (case bufferEntries sm ! b of
              FileEntry info \<Rightarrow> Inl BadVariantAccess
            | ExpansionEntry info \<Rightarrow>
                Inr (mkSourceLocation (buffer (originalLoc info))
                       ((charOffset (originalLoc info) + offset location) mod 2 ^ 64))))"

text \<open>
  \<^verbatim>\<open>getFullyExpandedLoc\<close>: a loop that runs as long as the location is in a macro
  expansion.
\<close>

partial_function (option) getFullyExpandedLoc ::
  "SourceManager \<Rightarrow> SourceLocation \<Rightarrow> (error + SourceLocation) option" where
  "getFullyExpandedLoc sm location =
     (case isMacroLoc sm location of
        Inl e \<Rightarrow> Some (Inl e)
      | Inr isMacro \<Rightarrow>
          if \<not> isMacro then Some (Inr location)
          else
            (case isMacroArgLoc sm location of
               Inl e \<Rightarrow> Some (Inl e)
             | Inr isArg \<Rightarrow>
                 (case (if isArg then getOriginalLoc sm location
                        else getExpansionLoc sm location) of
                    Inl e \<Rightarrow> Some (Inl e)
                  | Inr location' \<Rightarrow> getFullyExpandedLoc sm location')))"

text \<open>
  \<^verbatim>\<open>std::lower_bound\<close> on a vector: the bisection of the standard library, over the
  \<open>len\<close> elements from position \<open>first\<close>.
\<close>

function lower_bound_loop ::
  "('a \<Rightarrow> 'b \<Rightarrow> bool) \<Rightarrow> 'a list \<Rightarrow> nat \<Rightarrow> nat \<Rightarrow> 'b \<Rightarrow> nat" where
  "lower_bound_loop cmp xs first len v =
     (if len = 0 then first
      else let half = len div 2; middle = first + half in
        if cmp (xs ! middle) v
        then lower_bound_loop cmp xs (middle + 1) (len - half - 1) v
        else lower_bound_loop cmp xs first half v)"
  by pat_completeness auto
termination
  by (relation "measure (\<lambda>(cmp, xs, first, len, v). len)") auto

declare lower_bound_loop.simps [simp del]

definition lower_bound :: "('a \<Rightarrow> 'b \<Rightarrow> bool) \<Rightarrow> 'a list \<Rightarrow> 'b \<Rightarrow> nat" where
  "lower_bound cmp xs v = lower_bound_loop cmp xs 0 (length xs) v"

text \<open>
  \<^verbatim>\<open>computeLineOffsets\<close>: the offsets at which lines start. A line ends at a line feed
  (10) or carriage return (13); the two in a row, in either order, end one line. The
  loop reads the byte after a line end; every buffer ends with a zero byte, so that
  byte exists. For a buffer that ended with a line end the model takes the missing
  byte for no line end.
\<close>

fun lineOffsetsFrom :: "nat \<Rightarrow> nat list \<Rightarrow> nat list" where
  "lineOffsetsFrom pos [] = []"
| "lineOffsetsFrom pos [c] = (if c = 10 \<or> c = 13 then [pos + 1] else [])"
| "lineOffsetsFrom pos (c # d # rest) =
     (if c = 10 \<or> c = 13 then
        (if (d = 10 \<or> d = 13) \<and> c \<noteq> d
         then (pos + 2) # lineOffsetsFrom (pos + 2) rest
         else (pos + 1) # lineOffsetsFrom (pos + 1) (d # rest))
      else lineOffsetsFrom (pos + 1) (d # rest))"

definition computeLineOffsets :: "nat list \<Rightarrow> nat list" where
  "computeLineOffsets buf = 0 # lineOffsetsFrom 0 buf"

text \<open>\<^verbatim>\<open>SourceManager::getRawLineNumber\<close>.\<close>

definition getRawLineNumber :: "SourceManager \<Rightarrow> SourceLocation \<Rightarrow> nat" where
  "getRawLineNumber sm location =
     (case getFileInfo sm (buffer location) of
        None \<Rightarrow> 0
      | Some info \<Rightarrow>
          (case data info of
             None \<Rightarrow> 0
           | Some fd \<Rightarrow>
               (let lineOffsets = computeLineOffsets (mem fd);
                    it = lower_bound (<) lineOffsets (offset location)
                in if it \<noteq> length lineOffsets \<and> lineOffsets ! it = offset location
                   then it + 1 else it)))"

text \<open>
  \<^verbatim>\<open>FileInfo::getPreviousLineDirective\<close>; the raw line number is a \<^verbatim>\<open>size_t\<close>. The
  search key is a directive with that line as its \<^verbatim>\<open>lineInFile\<close>.
\<close>

definition getPreviousLineDirective ::
  "FileInfo \<Rightarrow> 64 word \<Rightarrow> LineDirectiveInfo option" where
  "getPreviousLineDirective info rawLineNumber =
     (let it = lower_bound (\<lambda>a b. lineInFile a < b) (lineDirectives info) rawLineNumber in
      if it \<noteq> 0 then
        (if it = length (lineDirectives info) \<and>
            lineInFile (last (lineDirectives info)) \<ge> rawLineNumber
         then None
         else Some (lineDirectives info ! (it - 1)))
      else None)"

text \<open>
  \<^verbatim>\<open>SourceManager::addLineDirective\<close>: the directive is put at the end of the list of
  its buffer. \<open>fullPath\<close> stands for the path that the C++ computes from the name in
  the directive and the name of the file, with the current directory of the process;
  the result is the manager after the call, unchanged when the location has no file.
\<close>

definition addLineDirective ::
  "(string \<Rightarrow> string \<Rightarrow> string) \<Rightarrow> SourceManager \<Rightarrow> SourceLocation \<Rightarrow> 64 word \<Rightarrow> string \<Rightarrow>
   nat \<Rightarrow> (error + SourceManager) option" where
  "addLineDirective fullPath sm location lineNum name' level' =
     (case getFullyExpandedLoc sm location of
        None \<Rightarrow> None
      | Some (Inl e) \<Rightarrow> Some (Inl e)
      | Some (Inr fileLocation) \<Rightarrow>
          (case getFileInfo sm (buffer fileLocation) of
             None \<Rightarrow> Some (Inr sm)
           | Some info \<Rightarrow>
               (case data info of
                  None \<Rightarrow> Some (Inr sm)
                | Some fd \<Rightarrow>
                    (let sourceLineNum = of_nat (getRawLineNumber sm fileLocation) :: 64 word;
                         full = fullPath name' (fileName fd);
                         info' = info\<lparr>lineDirectives := lineDirectives info @
                                   [\<lparr>directiveName = full, lineInFile = sourceLineNum,
                                     lineOfDirective = lineNum, level = level'\<rparr>]\<rparr>
                     in Some (Inr (sm\<lparr>bufferEntries :=
                                      (bufferEntries sm)[buffer fileLocation := FileEntry info']\<rparr>))))))"

text \<open>
  \<^verbatim>\<open>SourceManager::getLineNumber\<close>. \<open>None\<close> is a loop of \<^verbatim>\<open>getFullyExpandedLoc\<close>
  that does not end.
\<close>

definition getLineNumber :: "SourceManager \<Rightarrow> SourceLocation \<Rightarrow> (error + 64 word) option" where
  "getLineNumber sm location =
     (case getFullyExpandedLoc sm location of
        None \<Rightarrow> None
      | Some (Inl e) \<Rightarrow> Some (Inl e)
      | Some (Inr fileLocation) \<Rightarrow>
          (let rawLineNumber = of_nat (getRawLineNumber sm fileLocation) :: 64 word in
           if rawLineNumber = 0 then Some (Inr 0)
           else (case getFileInfo sm (buffer fileLocation) of
                   None \<Rightarrow> Some (Inl AssertionFailed)
                 | Some info \<Rightarrow>
                     (case getPreviousLineDirective info rawLineNumber of
                        None \<Rightarrow> Some (Inr rawLineNumber)
                      | Some lineDirective \<Rightarrow>
                          Some (Inr (lineOfDirective lineDirective +
                                     (rawLineNumber - lineInFile lineDirective) - 1))))))"






subsection \<open>The forest of buffers\<close>

text \<open>
  The parent of a buffer: the location that \<^verbatim>\<open>moveUp\<close> moves to from a location in
  the buffer, that is the place of the include directive of a file or the start of
  the expansion range of a macro expansion; \<open>None\<close> for a file that is not included
  and for an ID that denotes no buffer.
\<close>

definition parentOf :: "SourceManager \<Rightarrow> nat \<Rightarrow> SourceLocation option" where
  "parentOf sm b =
     (if b = 0 \<or> b \<ge> length (bufferEntries sm) then None
      else (case bufferEntries sm ! b of
              FileEntry info \<Rightarrow> if valid (includedFrom info) then Some (includedFrom info) else None
            | ExpansionEntry info \<Rightarrow> Some (startLoc (expansionRange info))))"

text \<open>
  A manager is well formed when it holds fewer than \<open>2 ^ 28\<close> entries and the parent
  of every buffer is a location in a buffer created earlier, with an offset of 36
  bits; a macro expansion has a valid parent. \<^verbatim>\<open>createBufferEntry\<close> and
  \<^verbatim>\<open>createExpansionLoc\<close> keep this, when they are given locations of the manager.
\<close>

definition parentOK :: "nat \<Rightarrow> BufferEntry \<Rightarrow> bool" where
  "parentOK i entry =
     (case entry of
        FileEntry info \<Rightarrow>
          charOffset (includedFrom info) < 2 ^ 36 \<and>
          (bufferID (includedFrom info) = 0 \<or> bufferID (includedFrom info) < i)
      | ExpansionEntry info \<Rightarrow>
          charOffset (startLoc (expansionRange info)) < 2 ^ 36 \<and>
          0 < bufferID (startLoc (expansionRange info)) \<and>
          bufferID (startLoc (expansionRange info)) < i)"

fun parentsOK :: "nat \<Rightarrow> BufferEntry list \<Rightarrow> bool" where
  "parentsOK i [] = True"
| "parentsOK i (entry # entries) = (parentOK i entry \<and> parentsOK (Suc i) entries)"

definition wellFormed :: "SourceManager \<Rightarrow> bool" where
  "wellFormed sm = (length (bufferEntries sm) < 2 ^ 28 \<and> parentsOK 0 (bufferEntries sm))"

text \<open>A location of the manager: in one of its buffers, with an offset of 36 bits.\<close>

definition inManager :: "SourceManager \<Rightarrow> SourceLocation \<Rightarrow> bool" where
  "inManager sm loc = (bufferID loc < length (bufferEntries sm) \<and> charOffset loc < 2 ^ 36)"

text \<open>
  The chain of a location: the location, its buffer's parent, that one's buffer's
  parent, and so on to a root; \<open>n\<close> bounds the number of steps. In a well-formed
  manager the buffer ID of the location is bound enough.
\<close>

fun up :: "SourceManager \<Rightarrow> nat \<Rightarrow> SourceLocation \<Rightarrow> SourceLocation list" where
  "up sm 0 loc = [loc]"
| "up sm (Suc n) loc =
     (case parentOf sm (bufferID loc) of
        None \<Rightarrow> [loc]
      | Some p \<Rightarrow> loc # up sm n p)"

definition ancestors :: "SourceManager \<Rightarrow> SourceLocation \<Rightarrow> SourceLocation list" where
  "ancestors sm loc = up sm (bufferID loc) loc"





text \<open>
  The part of a chain that the first loop of \<^verbatim>\<open>isBeforeInCompilationUnit\<close> visits:
  up to the first location in the buffer \<open>b\<close>, all of it when there is none.
\<close>

fun visited :: "nat \<Rightarrow> SourceLocation list \<Rightarrow> SourceLocation list" where
  "visited b [] = []"
| "visited b (x # xs) = (if bufferID x = b then [x] else x # visited b xs)"

subsection \<open>Example source managers\<close>

text \<open>
  A manager with one file of four lines, \<^verbatim>\<open>a\<close>, \<^verbatim>\<open>b\<close>, \<^verbatim>\<open>c\<close> and \<^verbatim>\<open>d\<close>, with a
  \<^verbatim>\<open>`line 100\<close> directive on its second line.
\<close>

definition ex_file :: FileData where
  "ex_file = \<lparr>fileName = ''a.sv'', mem = [97, 10, 98, 10, 99, 10, 100, 10, 0]\<rparr>"

definition ex_file_info :: FileInfo where
  "ex_file_info =
     \<lparr>data = Some ex_file,
      includedFrom = noSourceLocation,
      lineDirectives =
        [\<lparr>directiveName = ''x.sv'', lineInFile = 2, lineOfDirective = 100, level = 0\<rparr>]\<rparr>"

definition ex_manager :: SourceManager where
  "ex_manager = \<lparr>bufferEntries = bufferEntries newSourceManager @ [FileEntry ex_file_info]\<rparr>"

text \<open>
  The same file without a directive; then with a directive \<^verbatim>\<open>`line 300 "x.sv"\<close>
  recorded for its third line; then with a directive \<^verbatim>\<open>`line 200 "y.sv"\<close> recorded
  after that one, for its second line.
\<close>

definition ex_plain_manager :: SourceManager where
  "ex_plain_manager =
     \<lparr>bufferEntries = bufferEntries newSourceManager @
        [FileEntry \<lparr>data = Some ex_file, includedFrom = noSourceLocation,
                    lineDirectives = []\<rparr>]\<rparr>"

definition ex_one_directive :: SourceManager where
  "ex_one_directive =
     \<lparr>bufferEntries = bufferEntries newSourceManager @
        [FileEntry \<lparr>data = Some ex_file, includedFrom = noSourceLocation,
                    lineDirectives =
                      [\<lparr>directiveName = ''x.sv'', lineInFile = 3, lineOfDirective = 300,
                        level = 0\<rparr>]\<rparr>]\<rparr>"

definition ex_unsorted_manager :: SourceManager where
  "ex_unsorted_manager =
     \<lparr>bufferEntries = bufferEntries newSourceManager @
        [FileEntry \<lparr>data = Some ex_file, includedFrom = noSourceLocation,
                    lineDirectives =
                      [\<lparr>directiveName = ''x.sv'', lineInFile = 3, lineOfDirective = 300,
                        level = 0\<rparr>,
                       \<lparr>directiveName = ''y.sv'', lineInFile = 2, lineOfDirective = 200,
                        level = 0\<rparr>]\<rparr>]\<rparr>"

text \<open>
  A manager after \<open>2 ^ 28 - 1\<close> macro expansions at the start of a first file: it
  holds \<open>2 ^ 28 + 1\<close> entries.
\<close>

definition ex_expansion :: ExpansionInfo where
  "ex_expansion =
     \<lparr>originalLoc = mkSourceLocation 1 0,
      expansionRange = \<lparr>startLoc = mkSourceLocation 1 0, endLoc = mkSourceLocation 1 1\<rparr>,
      isMacroArg = False, macroName = ''M''\<rparr>"

definition ex_full_manager :: SourceManager where
  "ex_full_manager =
     \<lparr>bufferEntries = bufferEntries ex_manager @
        replicate (2 ^ 28 - 1) (ExpansionEntry ex_expansion)\<rparr>"


section \<open>Out-of-block methods (SubroutineSymbols.cpp)\<close>

datatype MethodFlags =
    MF_Virtual | MF_Pure | MF_Static | MF_Constructor | MF_InterfaceImport
  | MF_DPIImport | MF_DPIContext

datatype Visibility = V_Public | V_Protected | V_Local

datatype SubroutineKind = SK_Function | SK_Task

datatype ArgumentDirection = AD_In | AD_Out | AD_InOut | AD_Ref | AD_ConstRef

text \<open>The diagnostics that the functions below issue.\<close>

datatype DiagCode =
    MethodKindMismatch | MethodReturnMismatch | MethodArgCountMismatch
  | MethodArgNameMismatch | MethodArgTypeMismatch | MethodArgDirectionMismatch
  | MethodReturnTypeScoped | MethodArgNoDefault | MethodArgDefaultMismatch
  | BodyForPure | NoMemberImplFound | MemberDefinitionBeforeClass

text \<open>
  A bound expression is known here by the syntax node it was bound from (a null pointer
  is \<open>None\<close>).
\<close>

record Expression_ =
  exprSyntax :: "nat option"

record FormalArgumentSymbol =
  argName :: string
  argType :: Type
  direction :: ArgumentDirection
  getInitializer :: "Expression_ option"

text \<open>What a subroutine and a method prototype have in common.\<close>

record MethodBase =
  subroutineKind :: SubroutineKind
  visibility :: Visibility
  flags :: "MethodFlags set"
  getReturnType :: Type
  arguments :: "FormalArgumentSymbol list"

text \<open>
  \<^verbatim>\<open>SubroutineSymbol\<close>: \<open>parent\<close> and \<open>parentIndex\<close> are what \<^verbatim>\<open>setParent\<close> sets, and
  \<open>thisVar\<close> tells whether \<^verbatim>\<open>addThisVar\<close> was called.
\<close>

record SubroutineSymbol = MethodBase +
  parent :: "Scope option"
  parentIndex :: nat
  outOfBlockIndex :: nat
  thisVar :: bool

text \<open>
  \<^verbatim>\<open>MethodPrototypeSymbol\<close>: \<open>isVirtual\<close> is the value of the member function
  \<^verbatim>\<open>isVirtual()\<close>, which is declared outside the source files; \<open>subroutine\<close> is the
  memo of \<^verbatim>\<open>getSubroutine\<close> (\<open>None\<close> as long as it is unset, \<open>Some None\<close> for a null
  pointer); \<open>index\<close> is the index of the class in the scope that declares it.
\<close>

record MethodPrototypeSymbol = MethodBase +
  isVirtual :: bool
  subroutine :: "SubroutineSymbol option option"

definition isError :: "Type \<Rightarrow> bool" where
  "isError t = (kind t = K_ErrorType)"

text \<open>
  The loop of \<^verbatim>\<open>checkMethodMatch\<close> over the arguments of the definition and of the
  prototype, which are as many.
\<close>

fun checkArguments ::
  "(Type \<Rightarrow> ConstantRange) \<Rightarrow> FormalArgumentSymbol list \<Rightarrow> FormalArgumentSymbol list \<Rightarrow>
   bool \<times> DiagCode list" where
  "checkArguments bvr (da # defArgs) (pa # protoArgs) =
     (if argName da \<noteq> argName pa \<and> argName da \<noteq> [] \<and> argName pa \<noteq> []
        then (False, [MethodArgNameMismatch])
      else if \<not> isMatching bvr (argType da) (argType pa) \<and> \<not> isError (argType da) \<and>
              \<not> isError (argType pa)
        then (False, [MethodArgTypeMismatch])
      else if direction da \<noteq> direction pa
        then (False, [MethodArgDirectionMismatch])
      else checkArguments bvr defArgs protoArgs)"
| "checkArguments bvr defArgs protoArgs = (True, [])"

text \<open>
  \<^verbatim>\<open>MethodPrototypeSymbol::checkMethodMatch\<close>: whether the method agrees with the
  prototype, and the diagnostic issued when it does not.
\<close>

definition checkMethodMatch ::
  "(Type \<Rightarrow> ConstantRange) \<Rightarrow> 'a MethodPrototypeSymbol_scheme \<Rightarrow> 'b SubroutineSymbol_scheme \<Rightarrow>
   bool \<times> DiagCode list" where
  "checkMethodMatch bvr prototype method =
     (if subroutineKind method \<noteq> subroutineKind prototype then (False, [MethodKindMismatch])
      else let protoRetType = getReturnType prototype; defRetType = getReturnType method in
        if \<not> isMatching bvr defRetType protoRetType \<and> \<not> isError defRetType \<and>
           \<not> isError protoRetType
          then (False, [MethodReturnMismatch])
        else if length (arguments method) \<noteq> length (arguments prototype)
          then (False, [MethodArgCountMismatch])
        else checkArguments bvr (arguments method) (arguments prototype))"

text \<open>
  The loop of \<^verbatim>\<open>createOutOfBlock\<close> over the default values. For one argument of the
  definition and the one of the prototype: \<open>defaultDiag\<close> is the diagnostic at which
  the loop returns, if any, and \<open>copyDefault\<close> the argument of the definition, with the
  default of the prototype copied into it when it has none. \<open>isSameExpr\<close> compares two
  syntax trees; these are not modelled, so the comparison is a parameter.
\<close>

definition defaultDiag ::
  "(nat \<Rightarrow> nat \<Rightarrow> bool) \<Rightarrow> FormalArgumentSymbol \<Rightarrow> FormalArgumentSymbol \<Rightarrow> DiagCode option"
  where
  "defaultDiag isSameExpr da pa =
     (case getInitializer da of
        Some de \<Rightarrow>
          (case getInitializer pa of
             None \<Rightarrow> Some MethodArgNoDefault
           | Some pe \<Rightarrow>
               (case (exprSyntax de, exprSyntax pe) of
                  (Some ds, Some ps) \<Rightarrow>
                    if \<not> isSameExpr ds ps then Some MethodArgDefaultMismatch else None
                | _ \<Rightarrow> None))
      | None \<Rightarrow> None)"

definition copyDefault :: "FormalArgumentSymbol \<Rightarrow> FormalArgumentSymbol \<Rightarrow> FormalArgumentSymbol"
  where
  "copyDefault da pa =
     (case getInitializer da of
        Some de \<Rightarrow> da
      | None \<Rightarrow>
          (case getInitializer pa of
             Some pe \<Rightarrow> da\<lparr>getInitializer := Some pe\<rparr>
           | None \<Rightarrow> da))"

text \<open>
  The result of the loop: the arguments of the definition and the diagnostic issued.
\<close>

fun checkDefaults ::
  "(nat \<Rightarrow> nat \<Rightarrow> bool) \<Rightarrow> FormalArgumentSymbol list \<Rightarrow> FormalArgumentSymbol list \<Rightarrow>
   FormalArgumentSymbol list \<times> DiagCode list" where
  "checkDefaults isSameExpr (da # defArgs) (pa # protoArgs) =
     (case defaultDiag isSameExpr da pa of
        Some d \<Rightarrow> (da # defArgs, [d])
      | None \<Rightarrow>
          (let (rest, diags) = checkDefaults isSameExpr defArgs protoArgs
           in (copyDefault da pa # rest, diags)))"
| "checkDefaults isSameExpr defArgs protoArgs = (defArgs, [])"

text \<open>
  What \<^verbatim>\<open>Lookup::unqualified\<close> finds: the index of the symbol in its scope and, when
  the symbol is a type, the type.
\<close>

record FoundSymbol =
  getIndex :: nat
  asType :: "Type option"

text \<open>
  \<^verbatim>\<open>SubroutineSymbol::createOutOfBlock\<close>. The parameters stand for what the C++ gets
  from code outside the source files: \<open>fromSyntax\<close> is the subroutine that
  \<^verbatim>\<open>fromSyntax\<close> builds from the definition, \<open>retName\<close> the result of
  \<^verbatim>\<open>getSimpleTypeName\<close> on the syntax of the return type (empty when that is no
  simple name), and \<open>unqualified\<close> the lookup of a name from the scope of the
  definition. The result is the subroutine and the diagnostics issued.
\<close>

definition createOutOfBlock ::
  "(Type \<Rightarrow> ConstantRange) \<Rightarrow> (nat \<Rightarrow> nat \<Rightarrow> bool) \<Rightarrow> (string \<Rightarrow> FoundSymbol option) \<Rightarrow>
   SubroutineSymbol \<Rightarrow> string \<Rightarrow> MethodPrototypeSymbol \<Rightarrow> Scope \<Rightarrow> nat \<Rightarrow>
   SubroutineSymbol \<times> DiagCode list" where
  "createOutOfBlock bvr isSameExpr unqualified fromSyntax retName prototype parentScope
     outOfBlockIndex' =
     (let result = fromSyntax\<lparr>parent := Some parentScope, parentIndex := 2 ^ 31 - 1,
                     outOfBlockIndex := outOfBlockIndex'\<rparr>;
          result = result\<lparr>visibility := visibility prototype, flags := flags prototype\<rparr>;
          result = (if isVirtual prototype
                    then result\<lparr>flags := flags result \<union> {MF_Virtual}\<rparr> else result);
          result = (if MF_Static \<notin> flags result then result\<lparr>thisVar := True\<rparr> else result);
          (matches, diags) = checkMethodMatch bvr prototype result
      in if \<not> matches then (result, diags)
         else let defRetType = getReturnType result in
           if getParentScope (symbolBase defRetType) = Some parentScope \<and> retName \<noteq> [] \<and>
              (case unqualified retName of
                 None \<Rightarrow> True
               | Some found \<Rightarrow>
                   getIndex found > outOfBlockIndex' \<or>
                   (case asType found of
                      None \<Rightarrow> True
                    | Some t \<Rightarrow> \<not> isMatching bvr t defRetType))
           then (result, diags @ [MethodReturnTypeScoped])
           else let (args, diags') =
                      checkDefaults isSameExpr (arguments result) (arguments prototype)
                in (result\<lparr>arguments := args\<rparr>, diags @ diags'))"

text \<open>
  What \<^verbatim>\<open>Compilation::findOutOfBlockDecl\<close> returns for the name of the class and of
  the method: whether the registered syntax is a function or task declaration, its
  index in the scope of the definition, and what \<^verbatim>\<open>createOutOfBlock\<close> needs from it.
\<close>

record OutOfBlockDecl =
  isSubroutineDecl :: bool
  declIndex :: nat
  declFromSyntax :: SubroutineSymbol
  declRetName :: string

text \<open>
  \<^verbatim>\<open>MethodPrototypeSymbol::getSubroutine\<close> for a prototype of a class (one without
  the flag \<^verbatim>\<open>InterfaceImport\<close>; the branch for interfaces and modports is not
  modelled and is \<open>None\<close> here). \<open>classIndex\<close> is the index of the class in its scope,
  \<open>nearScope\<close> the scope of the class, \<open>fromPrototype\<close> the stub that
  \<^verbatim>\<open>createFromPrototype\<close> builds. The result is the subroutine (a null pointer is
  \<open>None\<close>), the diagnostics issued, and the prototype with its memo set.
\<close>

definition getSubroutine ::
  "(Type \<Rightarrow> ConstantRange) \<Rightarrow> (nat \<Rightarrow> nat \<Rightarrow> bool) \<Rightarrow> (string \<Rightarrow> FoundSymbol option) \<Rightarrow>
   OutOfBlockDecl option \<Rightarrow> SubroutineSymbol \<Rightarrow> Scope \<Rightarrow> nat \<Rightarrow> MethodPrototypeSymbol \<Rightarrow>
   (SubroutineSymbol option \<times> DiagCode list \<times> MethodPrototypeSymbol) option" where
  "getSubroutine bvr isSameExpr unqualified findOutOfBlockDecl fromPrototype nearScope
     classIndex prototype =
     (case subroutine prototype of
        Some s \<Rightarrow> Some (s, [], prototype)
      | None \<Rightarrow>
          if MF_InterfaceImport \<in> flags prototype then None
          else
            (let syntax' = (case findOutOfBlockDecl of
                              Some decl \<Rightarrow> if isSubroutineDecl decl then Some decl else None
                            | None \<Rightarrow> None)
             in if MF_Pure \<in> flags prototype then
                  (case syntax' of
                     Some decl \<Rightarrow> Some (None, [BodyForPure], prototype\<lparr>subroutine := Some None\<rparr>)
                   | None \<Rightarrow>
                       Some (Some fromPrototype, [],
                             prototype\<lparr>subroutine := Some (Some fromPrototype)\<rparr>))
                else
                  (case syntax' of
                     None \<Rightarrow>
                       Some (None, [NoMemberImplFound], prototype\<lparr>subroutine := Some None\<rparr>)
                   | Some decl \<Rightarrow>
                       (let early = (if declIndex decl \<le> classIndex
                                     then [MemberDefinitionBeforeClass] else []);
                            (result, diags) =
                              createOutOfBlock bvr isSameExpr unqualified (declFromSyntax decl)
                                (declRetName decl) prototype nearScope (declIndex decl)
                        in Some (Some result, early @ diags,
                                 prototype\<lparr>subroutine := Some (Some result)\<rparr>)))))"

subsection \<open>Example class and methods\<close>

text \<open>
  A class \<^verbatim>\<open>C\<close> (index 3 in its scope) with \<^verbatim>\<open>typedef int T\<close> and two prototypes,
  \<^verbatim>\<open>extern function T f()\<close> and \<^verbatim>\<open>extern function T g(int a)\<close>; outside, at index 7,
  the definitions \<^verbatim>\<open>function T C::f()\<close> and \<^verbatim>\<open>function T C::g()\<close>, the second
  without the argument. No \<^verbatim>\<open>T\<close> is visible from the scope of the definitions.
\<close>

definition ex_class_scope :: Scope where
  "ex_class_scope = \<lparr>scopeId = 5, asSymbolKind = K_ClassType\<rparr>"

definition ex_T :: Type where
  "ex_T = TypeAlias \<lparr>objectId = 50, getSyntax = Some 60, getParentScope = Some ex_class_scope\<rparr>
            ex_int"

definition ex_arg :: FormalArgumentSymbol where
  "ex_arg = \<lparr>argName = ''a'', argType = ex_int, direction = AD_In, getInitializer = None\<rparr>"

definition ex_proto_f :: MethodPrototypeSymbol where
  "ex_proto_f = \<lparr>subroutineKind = SK_Function, visibility = V_Protected, flags = {},
      getReturnType = ex_T, arguments = [], isVirtual = False, subroutine = None\<rparr>"

definition ex_proto_g :: MethodPrototypeSymbol where
  "ex_proto_g = \<lparr>subroutineKind = SK_Function, visibility = V_Protected, flags = {},
      getReturnType = ex_T, arguments = [ex_arg], isVirtual = False, subroutine = None\<rparr>"

text \<open>
  The prototype \<^verbatim>\<open>extern function T f()\<close> in a class whose base class declares
  \<^verbatim>\<open>f\<close> virtual: it has no flag of its own, and \<^verbatim>\<open>isVirtual()\<close> holds for it.
\<close>

definition ex_proto_override :: MethodPrototypeSymbol where
  "ex_proto_override = \<lparr>subroutineKind = SK_Function, visibility = V_Protected, flags = {},
      getReturnType = ex_T, arguments = [], isVirtual = True, subroutine = None\<rparr>"

definition ex_definition :: OutOfBlockDecl where
  "ex_definition =
     \<lparr>isSubroutineDecl = True, declIndex = 7,
      declFromSyntax =
        \<lparr>subroutineKind = SK_Function, visibility = V_Public, flags = {},
         getReturnType = ex_T, arguments = [], parent = None, parentIndex = 0,
         outOfBlockIndex = 0, thisVar = False\<rparr>,
      declRetName = ''T''\<rparr>"

definition ex_stub :: SubroutineSymbol where
  "ex_stub = \<lparr>subroutineKind = SK_Function, visibility = V_Protected, flags = {},
      getReturnType = ex_T, arguments = [], parent = Some ex_class_scope,
      parentIndex = 2 ^ 31 - 1, outOfBlockIndex = 0, thisVar = False\<rparr>"

section \<open>Properties of the type relations\<close>








lemma getCanonicalType_idem [simp]: "getCanonicalType (getCanonicalType t) = getCanonicalType t"
  by (induction t rule: getCanonicalType.induct) auto


lemma simpleKind_neq [simp]:
  "simpleKind k \<noteq> K_PredefinedIntegerType" "simpleKind k \<noteq> K_ScalarType"
  "simpleKind k \<noteq> K_FloatingType" "simpleKind k \<noteq> K_EnumType"
  "simpleKind k \<noteq> K_PackedArrayType" "simpleKind k \<noteq> K_FixedSizeUnpackedArrayType"
  "simpleKind k \<noteq> K_DynamicArrayType" "simpleKind k \<noteq> K_AssociativeArrayType"
  "simpleKind k \<noteq> K_QueueType" "simpleKind k \<noteq> K_PackedStructType"
  "simpleKind k \<noteq> K_PackedUnionType" "simpleKind k \<noteq> K_VirtualInterfaceType"
  "simpleKind k \<noteq> K_TypeAlias"
  by (cases k; simp)+







lemma isMatching_canonical:
  "isMatching bvr (getCanonicalType a) (getCanonicalType b) = isMatching bvr a b"
  by (simp add: isMatching.simps [of bvr a b]
        isMatching.simps [of bvr "getCanonicalType a" "getCanonicalType b"])

lemma asFixed_None:
  "kind t \<noteq> K_FixedSizeUnpackedArrayType \<Longrightarrow> asFixedSizeUnpackedArrayType t = None"
  by (cases t) auto

lemma index_None:
  "kind (getCanonicalType t) \<noteq> K_AssociativeArrayType \<Longrightarrow> getAssociativeIndexType t = None"
  by (cases "getCanonicalType t") (auto simp: getAssociativeIndexType_def)




text \<open>
  Claim C2, amended: \<^verbatim>\<open>Type::isEquivalent(a, b)\<close> holds if and only if, for the
  canonical types \<open>l\<close> and \<open>r\<close> of \<open>a\<close> and \<open>b\<close>: \<open>a\<close> and \<open>b\<close> are matching; or both
  are integral and neither is an enum, and they have the same signedness,
  four-stateness and bit width; or both are fixed-size unpacked arrays with ranges of
  the same width and equivalent element types; or both are of the same kind among
  dynamic array, associative array and queue, with equivalent element types and
  with index types that are both absent or both present and equivalent (only an
  associative array has an index type).
\<close>

theorem isEquivalent_iff:
  "isEquivalent bvr a b \<longleftrightarrow>
     (let l = getCanonicalType a; r = getCanonicalType b in
      isMatching bvr a b
      \<or> (isIntegral l \<and> isIntegral r \<and> \<not> isEnum l \<and> \<not> isEnum r \<and>
         (case (asIntegralType l, asIntegralType r) of
            (Some li, Some ri) \<Rightarrow>
              isSigned li = isSigned ri \<and> isFourState li = isFourState ri \<and>
              bitWidth li = bitWidth ri
          | _ \<Rightarrow> False))
      \<or> (case (asFixedSizeUnpackedArrayType l, asFixedSizeUnpackedArrayType r) of
            (Some (lelem, lrange), Some (relem, rrange)) \<Rightarrow>
              width lrange = width rrange \<and> isEquivalent bvr lelem relem
          | _ \<Rightarrow> False)
      \<or> (kind l = kind r \<and>
         (kind l = K_DynamicArrayType \<or> kind l = K_AssociativeArrayType \<or>
          kind l = K_QueueType) \<and>
         (case (getArrayElementType l, getArrayElementType r) of
            (Some le, Some re) \<Rightarrow> isEquivalent bvr le re
          | _ \<Rightarrow> False) \<and>
         (case (getAssociativeIndexType l, getAssociativeIndexType r) of
            (Some li, Some ri) \<Rightarrow> isEquivalent bvr li ri
          | (Some li, None) \<Rightarrow> False
          | (None, Some ri) \<Rightarrow> False
          | (None, None) \<Rightarrow> True)))"
proof -
  define l where "l = getCanonicalType a"
  define r where "r = getCanonicalType b"
  define integral where "integral \<longleftrightarrow> isIntegral l \<and> isIntegral r \<and> \<not> isEnum l \<and> \<not> isEnum r"
  define sameInt where "sameInt = (case (asIntegralType l, asIntegralType r) of
            (Some li, Some ri) \<Rightarrow>
              isSigned li = isSigned ri \<and> isFourState li = isFourState ri \<and>
              bitWidth li = bitWidth ri
          | _ \<Rightarrow> False)"
  define fixed where "fixed = (case (asFixedSizeUnpackedArrayType l, asFixedSizeUnpackedArrayType r) of
            (Some (lelem, lrange), Some (relem, rrange)) \<Rightarrow>
              width lrange = width rrange \<and> isEquivalent bvr lelem relem
          | _ \<Rightarrow> False)"
  define elemEq where "elemEq = (case (getArrayElementType l, getArrayElementType r) of
            (Some le, Some re) \<Rightarrow> isEquivalent bvr le re
          | _ \<Rightarrow> False)"
  define indexEq where "indexEq = (case (getAssociativeIndexType l, getAssociativeIndexType r) of
            (Some li, Some ri) \<Rightarrow> isEquivalent bvr li ri
          | (Some li, None) \<Rightarrow> False
          | (None, Some ri) \<Rightarrow> False
          | (None, None) \<Rightarrow> True)"
  define indexBad where "indexBad = (case (getAssociativeIndexType l, getAssociativeIndexType r) of
               (Some li, Some ri) \<Rightarrow> \<not> isEquivalent bvr li ri
             | (Some li, None) \<Rightarrow> True
             | (None, Some ri) \<Rightarrow> True
             | (None, None) \<Rightarrow> False)"
  have canon [simp]: "getCanonicalType l = l" "getCanonicalType r = r"
    by (simp_all add: l_def r_def)
  have indexBad: "indexBad = (\<not> indexEq)"
    by (simp add: indexBad_def indexEq_def split: option.splits)
  have L: "isEquivalent bvr a b =
      (if isMatching bvr a b then True
       else if integral then sameInt
       else if kind l = K_FixedSizeUnpackedArrayType \<and> kind r = K_FixedSizeUnpackedArrayType
         then fixed
       else if isUnpackedArray l \<and> kind l = kind r then
         (if kind l = K_AssociativeArrayType \<and> indexBad then False else elemEq)
       else False)"
    unfolding isEquivalent.simps [of bvr a b] Let_def l_def [symmetric] r_def [symmetric]
      integral_def sameInt_def fixed_def elemEq_def indexBad_def
      isMatching_canonical [of bvr a b, folded l_def r_def]
    by (rule refl)
  have R: "(let l = getCanonicalType a; r = getCanonicalType b in
      isMatching bvr a b
      \<or> (isIntegral l \<and> isIntegral r \<and> \<not> isEnum l \<and> \<not> isEnum r \<and>
         (case (asIntegralType l, asIntegralType r) of
            (Some li, Some ri) \<Rightarrow>
              isSigned li = isSigned ri \<and> isFourState li = isFourState ri \<and>
              bitWidth li = bitWidth ri
          | _ \<Rightarrow> False))
      \<or> (case (asFixedSizeUnpackedArrayType l, asFixedSizeUnpackedArrayType r) of
            (Some (lelem, lrange), Some (relem, rrange)) \<Rightarrow>
              width lrange = width rrange \<and> isEquivalent bvr lelem relem
          | _ \<Rightarrow> False)
      \<or> (kind l = kind r \<and>
         (kind l = K_DynamicArrayType \<or> kind l = K_AssociativeArrayType \<or>
          kind l = K_QueueType) \<and>
         (case (getArrayElementType l, getArrayElementType r) of
            (Some le, Some re) \<Rightarrow> isEquivalent bvr le re
          | _ \<Rightarrow> False) \<and>
         (case (getAssociativeIndexType l, getAssociativeIndexType r) of
            (Some li, Some ri) \<Rightarrow> isEquivalent bvr li ri
          | (Some li, None) \<Rightarrow> False
          | (None, Some ri) \<Rightarrow> False
          | (None, None) \<Rightarrow> True))) =
     (isMatching bvr a b \<or> (integral \<and> sameInt) \<or> fixed \<or>
      (kind l = kind r \<and>
         (kind l = K_DynamicArrayType \<or> kind l = K_AssociativeArrayType \<or>
          kind l = K_QueueType) \<and> elemEq \<and> indexEq))"
    unfolding Let_def l_def [symmetric] r_def [symmetric]
      integral_def sameInt_def fixed_def elemEq_def indexEq_def
    by (simp only: conj_assoc)
  have fixed_kind: "fixed \<Longrightarrow> kind l = K_FixedSizeUnpackedArrayType \<and>
      kind r = K_FixedSizeUnpackedArrayType"
    using asFixed_None [of l] asFixed_None [of r]
    by (cases "kind l = K_FixedSizeUnpackedArrayType";
        cases "kind r = K_FixedSizeUnpackedArrayType")
       (auto simp: fixed_def split: option.splits)
  have integral_kind: "integral \<Longrightarrow> kind l \<noteq> K_FixedSizeUnpackedArrayType \<and>
      kind l \<noteq> K_DynamicArrayType \<and> kind l \<noteq> K_AssociativeArrayType \<and> kind l \<noteq> K_QueueType"
    by (auto simp: integral_def isIntegral_def IntegralType_isKind_def)
  have index_other: "kind l \<noteq> K_AssociativeArrayType \<Longrightarrow> kind l = kind r \<Longrightarrow> indexEq"
    using index_None [of l] index_None [of r] by (simp add: indexEq_def)
  have unpacked: "isUnpackedArray l \<longleftrightarrow> kind l = K_FixedSizeUnpackedArrayType \<or>
      kind l = K_DynamicArrayType \<or> kind l = K_AssociativeArrayType \<or> kind l = K_QueueType"
    by (simp add: isUnpackedArray_def Let_def)
  show ?thesis
    unfolding L R unpacked indexBad
    using fixed_kind integral_kind index_other
    by (cases "isMatching bvr a b"; cases integral; cases fixed) auto
qed

text \<open>
  The characterisation at an instance: a dynamic array of \<^verbatim>\<open>int\<close> and a dynamic array
  of an enum with base \<^verbatim>\<open>int\<close> are not equivalent.
\<close>

theorem isEquivalent_iff_witness:
  "\<not> isEquivalent getBitVectorRange ex_dynamic1 ex_dynamic2"
proof -
  have "\<not> isMatching getBitVectorRange ex_dynamic1 ex_dynamic2"
    by code_simp
  moreover have "\<not> isEquivalent getBitVectorRange ex_int ex_enum_module1"
    by code_simp
  ultimately show ?thesis
    unfolding isEquivalent_iff [of getBitVectorRange ex_dynamic1 ex_dynamic2]
    by (simp add: ex_dynamic1_def ex_dynamic2_def isIntegral_def IntegralType_isKind_def
          getArrayElementType_def)
qed

text \<open>
  Claim C2 as stated fails for enums: the two enums declared in modules are both
  integral, with the same signedness, four-stateness and bit width, and they are not
  equivalent.
\<close>

theorem isEquivalent_enum_counterexample:
  "\<not> isEquivalent getBitVectorRange ex_enum_module1 ex_enum_module2 \<and>
   isIntegral ex_enum_module1 \<and> isIntegral ex_enum_module2 \<and>
   asIntegralType (getCanonicalType ex_enum_module1) =
     Some \<lparr>bitWidth = 32, isSigned = True, isFourState = False\<rparr> \<and>
   asIntegralType (getCanonicalType ex_enum_module2) =
     Some \<lparr>bitWidth = 32, isSigned = True, isFourState = False\<rparr>"
  by code_simp

lemma svint_ne_same: "\<not> logic_to_bool (svint_ne v v)"
  by (simp add: svint_ne_def logic_to_bool_def)

lemma sameValues_identical:
  "length ls = length rs \<Longrightarrow>
   \<forall>i<length ls. name (ls ! i) = name (rs ! i) \<and>
     (\<exists>v. getValue (ls ! i) = CV_Integer v \<and> getValue (rs ! i) = CV_Integer v) \<Longrightarrow>
   sameValues ls rs"
proof (induction ls rs rule: list_induct2)
  case Nil
  then show ?case by simp
next
  case (Cons x xs y ys)
  from Cons.prems have head: "name x = name y"
    "\<exists>v. getValue x = CV_Integer v \<and> getValue y = CV_Integer v"
    by force+
  from Cons.prems have "\<forall>i<length xs. name (xs ! i) = name (ys ! i) \<and>
     (\<exists>v. getValue (xs ! i) = CV_Integer v \<and> getValue (ys ! i) = CV_Integer v)"
    by force
  with Cons.IH have "sameValues xs ys" by simp
  with head show ?case by (auto simp: svint_ne_same)
qed


text \<open>
  Claim C10: two enum types, also two distinct objects, match whenever both are
  declared directly in the scope of a compilation unit, their base types match, and
  their value lists have the same length, with the same member name and the same
  integer constant at each position.
\<close>

theorem isMatching_enum_compilation_units:
  assumes "getParentScope lsym = Some lscope" and "asSymbolKind lscope = K_CompilationUnit"
    and "getParentScope rsym = Some rscope" and "asSymbolKind rscope = K_CompilationUnit"
    and "isMatching bvr lbase rbase"
    and "length lvalues = length rvalues"
    and "\<forall>i<length lvalues. name (lvalues ! i) = name (rvalues ! i) \<and>
           (\<exists>v. getValue (lvalues ! i) = CV_Integer v \<and> getValue (rvalues ! i) = CV_Integer v)"
  shows "isMatching bvr (EnumType lsym linfo lbase lvalues) (EnumType rsym rinfo rbase rvalues)"
proof -
  have "isSameEnum bvr (EnumType lsym linfo lbase lvalues) (EnumType rsym rinfo rbase rvalues)"
    using assms sameValues_identical [of lvalues rvalues]
    by (simp add: isSameEnum.simps)
  then show ?thesis
    by (simp add: isMatching.simps isFloating_def isSimpleBitVector_def isArray_def
          isPredefinedInteger_def isScalar_def)
qed

theorem isMatching_enum_compilation_units_witness:
  "ex_enum_unit1 \<noteq> ex_enum_unit2 \<and> isMatching getBitVectorRange ex_enum_unit1 ex_enum_unit2"
proof -
  have base: "isMatching getBitVectorRange ex_int ex_int"
    by (simp add: isMatching.simps)
  have vals: "\<forall>i<length ex_values. name (ex_values ! i) = name (ex_values ! i) \<and>
      (\<exists>v. getValue (ex_values ! i) = CV_Integer v \<and> getValue (ex_values ! i) = CV_Integer v)"
    by (simp add: ex_values_def less_Suc_eq numeral_2_eq_2)
  show ?thesis
    using base vals
      isMatching_enum_compilation_units [where bvr = getBitVectorRange
        and lsym = "\<lparr>objectId = 10, getSyntax = Some 20,
          getParentScope = Some \<lparr>scopeId = 1, asSymbolKind = K_CompilationUnit\<rparr>\<rparr>"
        and lscope = "\<lparr>scopeId = 1, asSymbolKind = K_CompilationUnit\<rparr>"
        and rsym = "\<lparr>objectId = 11, getSyntax = Some 21,
          getParentScope = Some \<lparr>scopeId = 2, asSymbolKind = K_CompilationUnit\<rparr>\<rparr>"
        and rscope = "\<lparr>scopeId = 2, asSymbolKind = K_CompilationUnit\<rparr>"
        and lbase = ex_int and rbase = ex_int
        and lvalues = ex_values and rvalues = ex_values
        and linfo = "\<lparr>bitWidth = 32, isSigned = True, isFourState = False\<rparr>"
        and rinfo = "\<lparr>bitWidth = 32, isSigned = True, isFourState = False\<rparr>"]
    by (simp add: ex_enum_unit1_def ex_enum_unit2_def)
qed

section \<open>Properties of constant evaluation\<close>

lemma svint_div_zero:
  "getBitWidth a = getBitWidth b \<Longrightarrow> toInt b = 0 \<Longrightarrow>
   svint_div a b = Some (allX (getBitWidth a) (signFlag a \<and> signFlag b))"
  by (simp add: svint_div_def)

lemma eval_conditional_unknown:
  assumes "eval c = Some cv" and "hasUnknown cv"
    and "eval t = Some tv" and "eval f = Some fv"
    and "getBitWidth tv = getBitWidth fv"
  shows "\<exists>r. eval (ConditionalOp c t f) = Some r \<and> getBitWidth r = getBitWidth tv \<and>
           (\<forall>i<getBitWidth tv.
              bits r ! i = (if bits tv ! i = bits fv ! i then bits tv ! i else LX))"
  using assms by (simp add: svint_merge_def getBitWidth_def mergeBit_def)

lemma eval_conditionalU2:
  "eval conditionalU2 = Some \<lparr>bits = [LX, LX, L1] @ replicate 125 L0, signFlag = False\<rparr>"
  by code_simp

text \<open>
  Claim C6: \<^verbatim>\<open>(1 / 0) ? 128'b101 : 128'b110\<close> evaluates to a value of 128 bits whose
  three lowest bits are X, X and 1 (written \<^verbatim>\<open>1xx\<close>) and whose other bits are 0. A
  division by zero gives the all-X value of the operands' width and no failure; a
  conditional whose condition has an unknown bit gives, bit by bit, the common bit of
  its branches where they agree and X where they differ.
\<close>

theorem conditionalU2_value:
  "eval conditionalU2 = Some \<lparr>bits = [LX, LX, L1] @ replicate 125 L0, signFlag = False\<rparr> \<and>
   (\<forall>a b. getBitWidth a = getBitWidth b \<and> toInt b = 0 \<longrightarrow>
      svint_div a b = Some (allX (getBitWidth a) (signFlag a \<and> signFlag b))) \<and>
   (\<forall>c t f cv tv fv.
      eval c = Some cv \<and> hasUnknown cv \<and> eval t = Some tv \<and> eval f = Some fv \<and>
      getBitWidth tv = getBitWidth fv \<longrightarrow>
      (\<exists>r. eval (ConditionalOp c t f) = Some r \<and> getBitWidth r = getBitWidth tv \<and>
           (\<forall>i<getBitWidth tv.
              bits r ! i = (if bits tv ! i = bits fv ! i then bits tv ! i else LX))))"
  using eval_conditionalU2 svint_div_zero eval_conditional_unknown by blast

theorem conditionalU2_value_witness:
  "svint_div (fromInt 32 True 1) (fromInt 32 True 0) = Some (allX 32 True)"
proof -
  have "getBitWidth (fromInt 32 True 1) = getBitWidth (fromInt 32 True 0) \<and>
        toInt (fromInt 32 True 0) = 0"
    by code_simp
  moreover have "getBitWidth (fromInt 32 True 1) = 32"
    by code_simp
  moreover have "signFlag (fromInt 32 True 1) \<and> signFlag (fromInt 32 True 0)"
    by (simp add: fromInt_def)
  ultimately show ?thesis
    using conditionalU2_value [THEN conjunct2, THEN conjunct1, rule_format,
        of "fromInt 32 True 1" "fromInt 32 True 0"]
    by simp
qed

section \<open>Properties of the source manager\<close>

lemma lower_bound_loop_partition:
  assumes "first + len \<le> length xs"
    and "\<And>i j. first \<le> i \<Longrightarrow> i < j \<Longrightarrow> j < first + len \<Longrightarrow> cmp (xs ! j) v \<Longrightarrow> cmp (xs ! i) v"
  shows "first \<le> lower_bound_loop cmp xs first len v \<and>
         lower_bound_loop cmp xs first len v \<le> first + len \<and>
         (\<forall>i. first \<le> i \<and> i < lower_bound_loop cmp xs first len v \<longrightarrow> cmp (xs ! i) v) \<and>
         (\<forall>i. lower_bound_loop cmp xs first len v \<le> i \<and> i < first + len \<longrightarrow> \<not> cmp (xs ! i) v)"
  using assms
proof (induction cmp xs first len v rule: lower_bound_loop.induct)
  case (1 cmp xs first len v)
  show ?case
  proof (cases "len = 0")
    case True
    then have "lower_bound_loop cmp xs first len v = first"
      by (subst lower_bound_loop.simps) simp
    with True show ?thesis by auto
  next
    case False
    define half where "half = len div 2"
    define middle where "middle = first + half"
    have half: "half < len" using False by (simp add: half_def)
    show ?thesis
    proof (cases "cmp (xs ! middle) v")
      case True
      have eq: "lower_bound_loop cmp xs first len v =
                lower_bound_loop cmp xs (middle + 1) (len - half - 1) v"
        using False True
        by (simp add: lower_bound_loop.simps [of cmp xs first len v] Let_def half_def middle_def)
      have IH: "middle + 1 \<le> lower_bound_loop cmp xs (middle + 1) (len - half - 1) v \<and>
         lower_bound_loop cmp xs (middle + 1) (len - half - 1) v \<le> middle + 1 + (len - half - 1) \<and>
         (\<forall>i. middle + 1 \<le> i \<and> i < lower_bound_loop cmp xs (middle + 1) (len - half - 1) v
              \<longrightarrow> cmp (xs ! i) v) \<and>
         (\<forall>i. lower_bound_loop cmp xs (middle + 1) (len - half - 1) v \<le> i \<and>
              i < middle + 1 + (len - half - 1) \<longrightarrow> \<not> cmp (xs ! i) v)"
      proof (rule "1.IH"(1) [OF False half_def middle_def])
        show "cmp (xs ! middle) v" by (rule True)
        show "middle + 1 + (len - half - 1) \<le> length xs"
          using "1.prems"(1) half by (simp add: middle_def)
        show "cmp (xs ! i) v" if "middle + 1 \<le> i" "i < j" "j < middle + 1 + (len - half - 1)"
          "cmp (xs ! j) v" for i j
          using that half by (intro "1.prems"(2) [of i j]) (simp_all add: middle_def)
      qed
      have below: "cmp (xs ! i) v" if "first \<le> i" "i \<le> middle" for i
      proof (cases "i = middle")
        case True
        with \<open>cmp (xs ! middle) v\<close> show ?thesis by simp
      next
        case False
        with that have "i < middle" by simp
        then show ?thesis
          using that half True by (intro "1.prems"(2) [of i middle]) (simp_all add: middle_def)
      qed
      have end_eq: "middle + 1 + (len - half - 1) = first + len"
        using half by (simp add: middle_def)
      define r where "r = lower_bound_loop cmp xs (middle + 1) (len - half - 1) v"
      have "first \<le> r" using IH by (simp add: r_def middle_def)
      moreover have "r \<le> first + len" using IH end_eq by (simp add: r_def)
      moreover have "cmp (xs ! i) v" if "first \<le> i" "i < r" for i
        using that IH below [of i] by (cases "i \<le> middle") (auto simp: r_def)
      moreover have "\<not> cmp (xs ! i) v" if "r \<le> i" "i < first + len" for i
        using that IH end_eq by (auto simp: r_def)
      ultimately show ?thesis
        unfolding eq r_def [symmetric] by blast
    next
      case notcmp: False
      have eq: "lower_bound_loop cmp xs first len v = lower_bound_loop cmp xs first half v"
        using False notcmp
        by (simp add: lower_bound_loop.simps [of cmp xs first len v] Let_def half_def middle_def)
      have IH: "first \<le> lower_bound_loop cmp xs first half v \<and>
         lower_bound_loop cmp xs first half v \<le> first + half \<and>
         (\<forall>i. first \<le> i \<and> i < lower_bound_loop cmp xs first half v \<longrightarrow> cmp (xs ! i) v) \<and>
         (\<forall>i. lower_bound_loop cmp xs first half v \<le> i \<and> i < first + half \<longrightarrow> \<not> cmp (xs ! i) v)"
      proof (rule "1.IH"(2) [OF False half_def middle_def])
        show "\<not> cmp (xs ! middle) v" by (rule notcmp)
        show "first + half \<le> length xs"
          using "1.prems"(1) half by simp
        show "cmp (xs ! i) v" if "first \<le> i" "i < j" "j < first + half" "cmp (xs ! j) v" for i j
          using that half by (intro "1.prems"(2) [of i j]) simp_all
      qed
      have above: "\<not> cmp (xs ! i) v" if "middle \<le> i" "i < first + len" for i
      proof (cases "i = middle")
        case True
        with notcmp show ?thesis by simp
      next
        case False
        with that have "middle < i" by simp
        then show ?thesis
          using that notcmp "1.prems"(2) [of middle i] by (auto simp: middle_def)
      qed
      define r where "r = lower_bound_loop cmp xs first half v"
      have "first \<le> r" using IH by (simp add: r_def)
      moreover have "r \<le> first + len" using IH half by (simp add: r_def)
      moreover have "cmp (xs ! i) v" if "first \<le> i" "i < r" for i
        using that IH by (auto simp: r_def)
      moreover have "\<not> cmp (xs ! i) v" if "r \<le> i" "i < first + len" for i
        using that IH above [of i] by (cases "i < middle") (auto simp: r_def middle_def)
      ultimately show ?thesis
        unfolding eq r_def [symmetric] by blast
    qed
  qed
qed


lemma filter_take_partition:
  assumes "k \<le> length xs"
    and "\<forall>i<k. P (xs ! i)"
    and "\<forall>i. k \<le> i \<and> i < length xs \<longrightarrow> \<not> P (xs ! i)"
  shows "filter P xs = take k xs"
proof -
  have "filter P (take k xs) = take k xs"
    using assms(1,2) by (auto simp: filter_id_conv in_set_conv_nth)
  moreover have "filter P (drop k xs) = []"
    using assms(1,3) by (auto simp: filter_empty_conv in_set_conv_nth)
  ultimately show ?thesis
    using filter_append [of P "take k xs" "drop k xs"] by simp
qed

lemma lower_bound_sorted:
  assumes "sorted (map lineInFile ds)"
  shows "lower_bound (\<lambda>a b. lineInFile a < b) ds raw \<le> length ds \<and>
         filter (\<lambda>d. lineInFile d < raw) ds =
           take (lower_bound (\<lambda>a b. lineInFile a < b) ds raw) ds"
proof -
  have mono: "lineInFile (ds ! i) < raw"
    if "i < j" "j < length ds" "lineInFile (ds ! j) < raw" for i j
  proof -
    have "map lineInFile ds ! i \<le> map lineInFile ds ! j"
      using that assms by (intro sorted_nth_mono) simp_all
    with that show ?thesis by simp
  qed
  have part: "0 \<le> lower_bound_loop (\<lambda>a b. lineInFile a < b) ds 0 (length ds) raw \<and>
         lower_bound_loop (\<lambda>a b. lineInFile a < b) ds 0 (length ds) raw \<le> 0 + length ds \<and>
         (\<forall>i. 0 \<le> i \<and> i < lower_bound_loop (\<lambda>a b. lineInFile a < b) ds 0 (length ds) raw
              \<longrightarrow> lineInFile (ds ! i) < raw) \<and>
         (\<forall>i. lower_bound_loop (\<lambda>a b. lineInFile a < b) ds 0 (length ds) raw \<le> i \<and>
              i < 0 + length ds \<longrightarrow> \<not> lineInFile (ds ! i) < raw)"
    by (rule lower_bound_loop_partition) (use mono in auto)
  then show ?thesis
    unfolding lower_bound_def
    by (intro conjI filter_take_partition) auto
qed

lemma getPreviousLineDirective_sorted:
  assumes "sorted (map lineInFile (lineDirectives info))"
  shows "getPreviousLineDirective info raw =
           (let preceding = filter (\<lambda>d. lineInFile d < raw) (lineDirectives info) in
            if preceding = [] then None else Some (last preceding))"
proof -
  define ds where "ds = lineDirectives info"
  define it where "it = lower_bound (\<lambda>a b. lineInFile a < b) ds raw"
  have it: "it \<le> length ds" and flt: "filter (\<lambda>d. lineInFile d < raw) ds = take it ds"
    using lower_bound_sorted [of ds raw] assms by (simp_all add: ds_def it_def)
  show ?thesis
  proof (cases "it = 0")
    case True
    then show ?thesis
      using flt by (simp add: getPreviousLineDirective_def Let_def ds_def [symmetric]
          it_def [symmetric])
  next
    case False
    have nonempty: "take it ds \<noteq> []" using False it by (cases ds) auto
    have lst: "last (take it ds) = ds ! (it - 1)"
      using it False nonempty by (simp add: last_conv_nth min_def)
    have "ds ! (it - 1) \<in> set (filter (\<lambda>d. lineInFile d < raw) ds)"
      unfolding flt using it False by (auto simp: in_set_conv_nth intro!: exI [of _ "it - 1"])
    then have before: "lineInFile (ds ! (it - 1)) < raw" by simp
    have "\<not> (it = length ds \<and> lineInFile (last ds) \<ge> raw)"
    proof
      assume a: "it = length ds \<and> lineInFile (last ds) \<ge> raw"
      with False have "ds \<noteq> []" by auto
      then have "last ds = ds ! (it - 1)" using a by (simp add: last_conv_nth)
      with before a show False by auto
    qed
    then show ?thesis
      using False lst flt nonempty
      by (simp add: getPreviousLineDirective_def Let_def ds_def [symmetric] it_def [symmetric])
  qed
qed

lemma getFullyExpandedLoc_file:
  assumes "getFileInfo sm (buffer L) = Some info"
  shows "getFullyExpandedLoc sm L = Some (Inr L)"
proof -
  have "isMacroLoc sm L = Inr False"
    using assms
    by (auto simp: isMacroLoc_def getFileInfo_def Let_def split: if_splits BufferEntry.splits)
  then show ?thesis
    by (subst getFullyExpandedLoc.simps) simp
qed

text \<open>
  Where the line directives of the buffer are sorted by the line of the file they are
  on: for a location \<open>L\<close> in a file buffer, \<^verbatim>\<open>getLineNumber\<close> returns the raw line
  number of \<open>L\<close> when no directive is on an earlier raw line, and otherwise, for the
  last directive on an earlier raw line (the nearest preceding one, which the binary
  search finds), the directive's line number plus the distance of the raw line from
  the directive's raw line, minus one, in \<^verbatim>\<open>size_t\<close> arithmetic.
\<close>

lemma getLineNumber_sorted_directives:
  assumes "getFileInfo sm (buffer L) = Some info"
    and "sorted (map lineInFile (lineDirectives info))"
  shows "getLineNumber sm L =
           Some (Inr (let raw = of_nat (getRawLineNumber sm L);
                          preceding = filter (\<lambda>d. lineInFile d < raw) (lineDirectives info)
                      in if preceding = [] then raw
                         else lineOfDirective (last preceding) +
                              (raw - lineInFile (last preceding)) - 1))"
proof (cases "(of_nat (getRawLineNumber sm L) :: 64 word) = 0")
  case True
  then show ?thesis
    using getFullyExpandedLoc_file [OF assms(1)]
    by (simp add: getLineNumber_def Let_def)
next
  case False
  then show ?thesis
    using getFullyExpandedLoc_file [OF assms(1)] assms(1)
      getPreviousLineDirective_sorted [OF assms(2)]
    by (simp add: getLineNumber_def Let_def)
qed

lemma getLineNumber_sorted_directives_example:
  "getLineNumber ex_manager (mkSourceLocation 1 6) = Some (Inr 101)"
proof -
  have info: "getFileInfo ex_manager (buffer (mkSourceLocation 1 6)) = Some ex_file_info"
    by (simp add: getFileInfo_def ex_manager_def newSourceManager_def buffer_def
          mkSourceLocation_def BufferID_def validID_def)
  have srt: "sorted (map lineInFile (lineDirectives ex_file_info))"
    by (simp add: ex_file_info_def)
  have offs: "computeLineOffsets [97, 10, 98, 10, 99, 10, 100, 10, 0] = [0, 2, 4, 6, 8]"
    by (simp add: computeLineOffsets_def)
  have lb: "lower_bound (<) [0, 2, 4, 6, 8::nat] (6::nat) = 3"
    by (simp add: lower_bound_def lower_bound_loop.simps Let_def)
  have raw: "getRawLineNumber ex_manager (mkSourceLocation 1 6) = 4"
    by (simp add: getRawLineNumber_def getFileInfo_def ex_manager_def newSourceManager_def
          buffer_def mkSourceLocation_def BufferID_def validID_def ex_file_info_def
          ex_file_def offs lb offset_def)
  show ?thesis
    using getLineNumber_sorted_directives [OF info srt] raw
    by (simp add: ex_file_info_def Let_def)
qed

text \<open>
  Claim C4 does not hold of the code: \<^verbatim>\<open>addLineDirective\<close> puts a directive at the
  end of the list of its buffer, whatever its line, so that the list is sorted only
  when the directives are recorded by increasing line. After a directive for the third
  line and then one for the second line, \<^verbatim>\<open>getLineNumber\<close> of a location on the
  fourth line is 201, computed from the directive on the second line; the nearest
  preceding directive is the one on the third line, from which the claim gives 300.
\<close>

theorem getLineNumber_unsorted_directives:
  "addLineDirective (\<lambda>n file. n) ex_plain_manager (mkSourceLocation 1 4) 300 ''x.sv'' 0 =
     Some (Inr ex_one_directive) \<and>
   addLineDirective (\<lambda>n file. n) ex_one_directive (mkSourceLocation 1 2) 200 ''y.sv'' 0 =
     Some (Inr ex_unsorted_manager) \<and>
   getRawLineNumber ex_unsorted_manager (mkSourceLocation 1 6) = 4 \<and>
   getLineNumber ex_unsorted_manager (mkSourceLocation 1 6) = Some (Inr 201)"
proof -
  have offs: "computeLineOffsets [97, 10, 98, 10, 99, 10, 100, 10, 0] = [0, 2, 4, 6, 8]"
    by (simp add: computeLineOffsets_def)
  have lb: "lower_bound (<) [0, 2, 4, 6, 8::nat] (6::nat) = 3"
    "lower_bound (<) [0, 2, 4, 6, 8::nat] (4::nat) = 2"
    "lower_bound (<) [0, 2, 4, 6, 8::nat] (2::nat) = 1"
    by (simp_all add: lower_bound_def lower_bound_loop.simps Let_def)
  have loc: "buffer (mkSourceLocation (Suc 0) k) = Suc 0" "validID (Suc 0)" for k
    by (simp_all add: buffer_def mkSourceLocation_def BufferID_def validID_def)
  have off: "offset (mkSourceLocation (Suc 0) 6) = 6" "offset (mkSourceLocation (Suc 0) 4) = 4"
    "offset (mkSourceLocation (Suc 0) 2) = 2"
    by (simp_all add: offset_def mkSourceLocation_def)
  have exp: "getFullyExpandedLoc sm (mkSourceLocation (Suc 0) k) = Some (Inr (mkSourceLocation (Suc 0) k))"
    if "getFileInfo sm (Suc 0) = Some info" for sm k info
    using that by (intro getFullyExpandedLoc_file [of sm _ info]) (simp only: loc)
  have info0: "getFileInfo ex_plain_manager (Suc 0) =
      Some \<lparr>data = Some ex_file, includedFrom = noSourceLocation, lineDirectives = []\<rparr>"
    by (simp add: getFileInfo_def ex_plain_manager_def newSourceManager_def loc)
  have info1: "getFileInfo ex_one_directive (Suc 0) =
      Some \<lparr>data = Some ex_file, includedFrom = noSourceLocation,
            lineDirectives = [\<lparr>directiveName = ''x.sv'', lineInFile = 3, lineOfDirective = 300,
                        level = 0\<rparr>]\<rparr>"
    by (simp add: getFileInfo_def ex_one_directive_def newSourceManager_def loc)
  have info2: "getFileInfo ex_unsorted_manager (Suc 0) =
      Some \<lparr>data = Some ex_file, includedFrom = noSourceLocation,
            lineDirectives = [\<lparr>directiveName = ''x.sv'', lineInFile = 3, lineOfDirective = 300,
                        level = 0\<rparr>,
                       \<lparr>directiveName = ''y.sv'', lineInFile = 2, lineOfDirective = 200,
                        level = 0\<rparr>]\<rparr>"
    by (simp add: getFileInfo_def ex_unsorted_manager_def newSourceManager_def loc)
  have raw0: "getRawLineNumber ex_plain_manager (mkSourceLocation (Suc 0) 4) = 3"
    by (simp add: getRawLineNumber_def info0 loc ex_file_def offs lb off)
  have raw1: "getRawLineNumber ex_one_directive (mkSourceLocation (Suc 0) 2) = 2"
    by (simp add: getRawLineNumber_def info1 loc ex_file_def offs lb off)
  have raw2: "getRawLineNumber ex_unsorted_manager (mkSourceLocation (Suc 0) 6) = 4"
    by (simp add: getRawLineNumber_def info2 loc ex_file_def offs lb off)
  have add1: "addLineDirective (\<lambda>n file. n) ex_plain_manager (mkSourceLocation (Suc 0) 4) 300
      ''x.sv'' 0 = Some (Inr ex_one_directive)"
    by (simp add: addLineDirective_def exp [OF info0] info0 raw0 loc Let_def)
       (simp add: ex_plain_manager_def ex_one_directive_def newSourceManager_def)
  have add2: "addLineDirective (\<lambda>n file. n) ex_one_directive (mkSourceLocation (Suc 0) 2) 200
      ''y.sv'' 0 = Some (Inr ex_unsorted_manager)"
    by (simp add: addLineDirective_def exp [OF info1] info1 raw1 loc Let_def)
       (simp add: ex_one_directive_def ex_unsorted_manager_def newSourceManager_def)
  have prev: "getPreviousLineDirective
      \<lparr>data = Some ex_file, includedFrom = noSourceLocation,
            lineDirectives = [\<lparr>directiveName = ''x.sv'', lineInFile = 3, lineOfDirective = 300,
                        level = 0\<rparr>,
                       \<lparr>directiveName = ''y.sv'', lineInFile = 2, lineOfDirective = 200,
                        level = 0\<rparr>]\<rparr> 4 =
      Some \<lparr>directiveName = ''y.sv'', lineInFile = 2, lineOfDirective = 200, level = 0\<rparr>"
    by (simp add: getPreviousLineDirective_def lower_bound_def lower_bound_loop.simps Let_def)
  have line: "getLineNumber ex_unsorted_manager (mkSourceLocation (Suc 0) 6) = Some (Inr 201)"
    by (simp add: getLineNumber_def exp [OF info2] info2 raw2 loc Let_def prev)
  show ?thesis
    using add1 add2 raw2 line by simp
qed

text \<open>
  Claim C8, amended: as long as the manager holds fewer than \<open>2 ^ 32\<close> entries,
  \<^verbatim>\<open>createBufferEntry\<close> gives the new file buffer the ID that is the number of entries
  after the call minus one; as long as it holds fewer than \<open>2 ^ 28\<close> entries, both
  forms of \<^verbatim>\<open>createExpansionLoc\<close> do so for the new expansion buffer. That ID is the number
  of entries before the call, so it is above every ID in use; the entries before the
  call stay where they are and one entry is added, so two creations in a row get
  consecutive IDs.
\<close>

theorem buffer_ids_dense:
  "(length (bufferEntries sm) < 2 ^ 32 \<longrightarrow>
      id (snd (createBufferEntry sm fd inc)) =
        length (bufferEntries (fst (createBufferEntry sm fd inc))) - 1 \<and>
      id (snd (createBufferEntry sm fd inc)) = length (bufferEntries sm)) \<and>
   (length (bufferEntries sm) < 2 ^ 28 \<longrightarrow>
      buffer (snd (createExpansionLoc sm orig rng arg)) =
        length (bufferEntries (fst (createExpansionLoc sm orig rng arg))) - 1 \<and>
      buffer (snd (createExpansionLoc sm orig rng arg)) = length (bufferEntries sm) \<and>
      buffer (snd (createExpansionLocNamed sm orig rng nm)) =
        length (bufferEntries (fst (createExpansionLocNamed sm orig rng nm))) - 1 \<and>
      buffer (snd (createExpansionLocNamed sm orig rng nm)) = length (bufferEntries sm)) \<and>
   take (length (bufferEntries sm)) (bufferEntries (fst (createBufferEntry sm fd inc))) =
     bufferEntries sm \<and>
   length (bufferEntries (fst (createBufferEntry sm fd inc))) = length (bufferEntries sm) + 1 \<and>
   take (length (bufferEntries sm)) (bufferEntries (fst (createExpansionLoc sm orig rng arg))) =
     bufferEntries sm \<and>
   length (bufferEntries (fst (createExpansionLoc sm orig rng arg))) =
     length (bufferEntries sm) + 1 \<and>
   take (length (bufferEntries sm))
     (bufferEntries (fst (createExpansionLocNamed sm orig rng nm))) = bufferEntries sm \<and>
   length (bufferEntries (fst (createExpansionLocNamed sm orig rng nm))) =
     length (bufferEntries sm) + 1"
  by (simp add: createBufferEntry_def createExpansionLoc_def createExpansionLocNamed_def
        Let_def BufferID_def buffer_def mkSourceLocation_def)

text \<open>
  Two buffers created one after the other in a manager of two entries get the IDs 2
  and 3.
\<close>

theorem buffer_ids_dense_witness:
  "id (snd (createBufferEntry ex_manager ex_file noSourceLocation)) = 2 \<and>
   buffer (snd (createExpansionLoc (fst (createBufferEntry ex_manager ex_file noSourceLocation))
     (mkSourceLocation 1 0) \<lparr>startLoc = mkSourceLocation 1 0, endLoc = mkSourceLocation 1 1\<rparr>
     False)) = 3"
proof -
  have len: "length (bufferEntries ex_manager) = 2"
    by (simp add: ex_manager_def newSourceManager_def)
  have first: "id (snd (createBufferEntry ex_manager ex_file noSourceLocation)) = 2"
    and len': "length (bufferEntries (fst (createBufferEntry ex_manager ex_file
                 noSourceLocation))) = 3"
    using buffer_ids_dense [of ex_manager ex_file noSourceLocation "mkSourceLocation 1 0"
        "\<lparr>startLoc = mkSourceLocation 1 0, endLoc = mkSourceLocation 1 1\<rparr>" False "[]"] len
    by simp_all
  have "buffer (snd (createExpansionLoc (fst (createBufferEntry ex_manager ex_file
           noSourceLocation)) (mkSourceLocation 1 0)
           \<lparr>startLoc = mkSourceLocation 1 0, endLoc = mkSourceLocation 1 1\<rparr> False)) = 3"
    using buffer_ids_dense [of "fst (createBufferEntry ex_manager ex_file noSourceLocation)"
        ex_file noSourceLocation "mkSourceLocation 1 0"
        "\<lparr>startLoc = mkSourceLocation 1 0, endLoc = mkSourceLocation 1 1\<rparr>" False "[]"] len'
    by simp
  with first show ?thesis by simp
qed

text \<open>
  Claim C8 as stated fails when the 28 bits of a location's buffer ID run out: in a
  manager of \<open>2 ^ 28 + 1\<close> entries the next expansion buffer is entry \<open>2 ^ 28 + 1\<close>
  and gets the ID 1, the ID of the first file.
\<close>

theorem buffer_ids_counterexample:
  "buffer (snd (createExpansionLoc ex_full_manager (mkSourceLocation 1 0)
       \<lparr>startLoc = mkSourceLocation 1 0, endLoc = mkSourceLocation 1 1\<rparr> False)) = 1 \<and>
   length (bufferEntries (fst (createExpansionLoc ex_full_manager (mkSourceLocation 1 0)
       \<lparr>startLoc = mkSourceLocation 1 0, endLoc = mkSourceLocation 1 1\<rparr> False))) - 1
     = 2 ^ 28 + 1"
proof -
  have "length (bufferEntries ex_full_manager) = 2 + (2 ^ 28 - 1)"
    unfolding ex_full_manager_def ex_manager_def newSourceManager_def
    by (simp only: SourceManager.simps length_append length_replicate list.size)
  then have len: "length (bufferEntries ex_full_manager) = 2 ^ 28 + 1"
    by simp
  show ?thesis
    by (simp add: createExpansionLoc_def Let_def len BufferID_def buffer_def
          mkSourceLocation_def)
qed

subsection \<open>The order of locations in a compilation unit\<close>







lemma up_not_Nil [simp]: "up sm n loc \<noteq> []"
  by (cases n) (auto split: option.splits)

lemma hd_up [simp]: "hd (up sm n loc) = loc"
  by (cases n) (auto split: option.splits)

lemma visited_Nil_iff [simp]: "visited b xs = [] \<longleftrightarrow> xs = []"
  by (cases xs) auto







lemma ancestors_nth_0 [simp]: "ancestors sm l ! 0 = l"
  using hd_conv_nth [of "up sm (bufferID l) l"] by (simp add: ancestors_def)
















text \<open>
  The constructor gives a well-formed manager, and the functions that create buffers
  keep it well formed when the parent they are given is a location of the manager.
\<close>

lemma parentsOK_append:
  "parentsOK i (entries @ [entry]) = (parentsOK i entries \<and> parentOK (i + length entries) entry)"
  by (induction entries arbitrary: i) auto

lemma wellFormed_newSourceManager: "wellFormed newSourceManager"
  by (simp add: wellFormed_def newSourceManager_def parentOK_def noSourceLocation_def)

lemma wellFormed_createBufferEntry:
  assumes "wellFormed sm" and "Suc (length (bufferEntries sm)) < 2 ^ 28"
    and "inManager sm includedFrom'"
  shows "wellFormed (fst (createBufferEntry sm fd includedFrom'))"
  using assms
  by (auto simp: wellFormed_def createBufferEntry_def Let_def parentsOK_append parentOK_def
      inManager_def)

lemma wellFormed_createExpansionLoc:
  assumes "wellFormed sm" and "Suc (length (bufferEntries sm)) < 2 ^ 28"
    and "inManager sm (startLoc expansionRange')" and "0 < bufferID (startLoc expansionRange')"
  shows "wellFormed (fst (createExpansionLoc sm originalLoc' expansionRange' isMacroArg'))"
  using assms
  by (auto simp: wellFormed_def createExpansionLoc_def Let_def parentsOK_append parentOK_def
      inManager_def)












section \<open>Properties of out-of-block methods\<close>

lemma checkArguments_diags: "MethodReturnTypeScoped \<notin> set (snd (checkArguments bvr ds ps))"
  by (induction bvr ds ps rule: checkArguments.induct) auto

lemma checkMethodMatch_diags:
  "MethodReturnTypeScoped \<notin> set (snd (checkMethodMatch bvr prototype method))"
  by (simp add: checkMethodMatch_def Let_def checkArguments_diags)

lemma defaultDiag_code: "defaultDiag isSameExpr da pa \<noteq> Some MethodReturnTypeScoped"
  by (simp add: defaultDiag_def split: option.splits)

lemma checkDefaults_diags:
  "MethodReturnTypeScoped \<notin> set (snd (checkDefaults isSameExpr ds ps))"
proof (induction isSameExpr ds ps rule: checkDefaults.induct)
  case (1 isSameExpr da defArgs pa protoArgs)
  show ?case
  proof (cases "defaultDiag isSameExpr da pa")
    case None
    with 1 show ?thesis by (auto split: prod.splits)
  next
    case (Some d)
    with defaultDiag_code [of isSameExpr da pa] show ?thesis by auto
  qed
qed simp_all

lemma checkMethodMatch_fields:
  "subroutineKind m = subroutineKind m' \<Longrightarrow> getReturnType m = getReturnType m' \<Longrightarrow>
   arguments m = arguments m' \<Longrightarrow>
   checkMethodMatch bvr prototype m = checkMethodMatch bvr prototype m'"
  by (simp add: checkMethodMatch_def Let_def)

lemma createOutOfBlock_result:
  "visibility (fst (createOutOfBlock bvr isSameExpr unqualified fromSyntax retName prototype
      parentScope idx)) = visibility prototype \<and>
   flags (fst (createOutOfBlock bvr isSameExpr unqualified fromSyntax retName prototype
      parentScope idx)) =
     (if isVirtual prototype then flags prototype \<union> {MF_Virtual} else flags prototype)"
  by (simp add: createOutOfBlock_def Let_def split: prod.splits)

lemma createOutOfBlock_diag:
  "MethodReturnTypeScoped \<in> set (snd (createOutOfBlock bvr isSameExpr unqualified fromSyntax
      retName prototype parentScope idx)) \<longleftrightarrow>
   fst (checkMethodMatch bvr prototype fromSyntax) \<and>
   getParentScope (symbolBase (getReturnType fromSyntax)) = Some parentScope \<and> retName \<noteq> [] \<and>
   (case unqualified retName of
      None \<Rightarrow> True
    | Some found \<Rightarrow>
        getIndex found > idx \<or>
        (case asType found of
           None \<Rightarrow> True
         | Some t \<Rightarrow> \<not> isMatching bvr t (getReturnType fromSyntax)))"
proof -
  define result where "result =
    (let result = fromSyntax\<lparr>parent := Some parentScope, parentIndex := 2 ^ 31 - 1,
                     outOfBlockIndex := idx\<rparr>;
          result = result\<lparr>visibility := visibility prototype, flags := flags prototype\<rparr>;
          result = (if isVirtual prototype
                    then result\<lparr>flags := flags result \<union> {MF_Virtual}\<rparr> else result)
     in (if MF_Static \<notin> flags result then result\<lparr>thisVar := True\<rparr> else result))"
  have same: "checkMethodMatch bvr prototype result = checkMethodMatch bvr prototype fromSyntax"
    by (rule checkMethodMatch_fields) (simp_all add: result_def Let_def)
  have ret: "getReturnType result = getReturnType fromSyntax"
    and args: "arguments result = arguments fromSyntax"
    by (simp_all add: result_def Let_def)
  obtain matches diags where cm: "checkMethodMatch bvr prototype fromSyntax = (matches, diags)"
    by (cases "checkMethodMatch bvr prototype fromSyntax")
  have nd: "MethodReturnTypeScoped \<notin> set diags"
    using checkMethodMatch_diags [of bvr prototype fromSyntax] cm by simp
  obtain args' diags' where cd:
    "checkDefaults isSameExpr (arguments fromSyntax) (arguments prototype) = (args', diags')"
    by (cases "checkDefaults isSameExpr (arguments fromSyntax) (arguments prototype)")
  have nd': "MethodReturnTypeScoped \<notin> set diags'"
    using checkDefaults_diags [of isSameExpr "arguments fromSyntax" "arguments prototype"] cd
    by simp
  have unf: "createOutOfBlock bvr isSameExpr unqualified fromSyntax retName prototype
      parentScope idx =
     (if \<not> matches then (result, diags)
      else if getParentScope (symbolBase (getReturnType fromSyntax)) = Some parentScope \<and>
              retName \<noteq> [] \<and>
              (case unqualified retName of
                 None \<Rightarrow> True
               | Some found \<Rightarrow>
                   getIndex found > idx \<or>
                   (case asType found of
                      None \<Rightarrow> True
                    | Some t \<Rightarrow> \<not> isMatching bvr t (getReturnType fromSyntax)))
           then (result, diags @ [MethodReturnTypeScoped])
           else (result\<lparr>arguments := args'\<rparr>, diags @ diags'))"
    unfolding createOutOfBlock_def Let_def result_def [unfolded Let_def, symmetric]
      same cm ret args cd
    by simp
  show ?thesis
    unfolding unf cm using nd nd' by simp
qed

text \<open>
  Claim C9, amended: when \<^verbatim>\<open>getSubroutine\<close> builds the subroutine of a class method
  prototype from the registered \<^verbatim>\<open>class::method\<close> syntax (the prototype has no
  subroutine yet, is neither an interface import nor pure, and a function or task
  declaration is registered for it), a subroutine is returned in every case; its
  visibility is that of the prototype and its flags are those of the prototype, with
  the flag \<^verbatim>\<open>Virtual\<close> added when \<^verbatim>\<open>isVirtual()\<close> holds for the prototype. The diagnostic
  \<^verbatim>\<open>MethodReturnTypeScoped\<close> is issued exactly when the definition agrees with the
  prototype (\<^verbatim>\<open>checkMethodMatch\<close>), the return type of the definition is a member of
  the class scope and is named by a simple name, and the lookup of that name from the
  scope of the definition finds nothing, or a symbol declared after the definition, or
  a symbol that is no type, or a type that does not match the return type.
\<close>

theorem getSubroutine_out_of_block:
  assumes "subroutine prototype = None"
    and "MF_InterfaceImport \<notin> flags prototype" and "MF_Pure \<notin> flags prototype"
    and "findOutOfBlockDecl = Some decl" and "isSubroutineDecl decl"
  shows "\<exists>result diags prototype'.
           getSubroutine bvr isSameExpr unqualified findOutOfBlockDecl fromPrototype nearScope
             classIndex prototype = Some (Some result, diags, prototype') \<and>
           subroutine prototype' = Some (Some result) \<and>
           visibility result = visibility prototype \<and>
           flags result =
             (if isVirtual prototype then flags prototype \<union> {MF_Virtual} else flags prototype) \<and>
           (MethodReturnTypeScoped \<in> set diags \<longleftrightarrow>
              fst (checkMethodMatch bvr prototype (declFromSyntax decl)) \<and>
              getParentScope (symbolBase (getReturnType (declFromSyntax decl))) = Some nearScope \<and>
              declRetName decl \<noteq> [] \<and>
              (case unqualified (declRetName decl) of
                 None \<Rightarrow> True
               | Some found \<Rightarrow>
                   getIndex found > declIndex decl \<or>
                   (case asType found of
                      None \<Rightarrow> True
                    | Some t \<Rightarrow> \<not> isMatching bvr t (getReturnType (declFromSyntax decl)))))"
proof -
  obtain result diags where co:
    "createOutOfBlock bvr isSameExpr unqualified (declFromSyntax decl) (declRetName decl)
       prototype nearScope (declIndex decl) = (result, diags)"
    by (cases "createOutOfBlock bvr isSameExpr unqualified (declFromSyntax decl)
       (declRetName decl) prototype nearScope (declIndex decl)")
  define early where "early = (if declIndex decl \<le> classIndex
                                     then [MemberDefinitionBeforeClass] else [])"
  have gs: "getSubroutine bvr isSameExpr unqualified findOutOfBlockDecl fromPrototype nearScope
             classIndex prototype =
           Some (Some result, early @ diags, prototype\<lparr>subroutine := Some (Some result)\<rparr>)"
    using assms co by (simp add: getSubroutine_def Let_def early_def)
  have res: "visibility result = visibility prototype"
    "flags result =
       (if isVirtual prototype then flags prototype \<union> {MF_Virtual} else flags prototype)"
    using createOutOfBlock_result [of bvr isSameExpr unqualified "declFromSyntax decl"
        "declRetName decl" prototype nearScope "declIndex decl"] co
    by simp_all
  have "MethodReturnTypeScoped \<in> set (early @ diags) \<longleftrightarrow> MethodReturnTypeScoped \<in> set diags"
    by (simp add: early_def)
  then have dg: "MethodReturnTypeScoped \<in> set (early @ diags) \<longleftrightarrow>
              fst (checkMethodMatch bvr prototype (declFromSyntax decl)) \<and>
              getParentScope (symbolBase (getReturnType (declFromSyntax decl))) = Some nearScope \<and>
              declRetName decl \<noteq> [] \<and>
              (case unqualified (declRetName decl) of
                 None \<Rightarrow> True
               | Some found \<Rightarrow>
                   getIndex found > declIndex decl \<or>
                   (case asType found of
                      None \<Rightarrow> True
                    | Some t \<Rightarrow> \<not> isMatching bvr t (getReturnType (declFromSyntax decl))))"
    using createOutOfBlock_diag [of bvr isSameExpr unqualified "declFromSyntax decl"
        "declRetName decl" prototype nearScope "declIndex decl"] co
    by simp
  show ?thesis
    unfolding gs using res dg by simp
qed

text \<open>
  The definition of \<^verbatim>\<open>f\<close> agrees with its prototype and its return type \<^verbatim>\<open>T\<close> is
  not visible outside the class: the subroutine is returned, protected as the
  prototype is, and the diagnostic is issued.
\<close>

theorem getSubroutine_out_of_block_witness:
  "getSubroutine getBitVectorRange (\<lambda>l r. l = r) (\<lambda>n. None) (Some ex_definition) ex_stub
     ex_class_scope 3 ex_proto_f =
   Some (Some (ex_stub\<lparr>outOfBlockIndex := 7, thisVar := True\<rparr>), [MethodReturnTypeScoped],
         ex_proto_f\<lparr>subroutine := Some (Some (ex_stub\<lparr>outOfBlockIndex := 7, thisVar := True\<rparr>))\<rparr>)"
proof -
  have match: "checkMethodMatch getBitVectorRange ex_proto_f (declFromSyntax ex_definition) =
      (True, [])"
    by (simp add: checkMethodMatch_def ex_proto_f_def ex_definition_def Let_def
          isMatching.simps)
  have ex: "\<exists>result diags prototype'.
      getSubroutine getBitVectorRange (\<lambda>l r. l = r) (\<lambda>n. None) (Some ex_definition) ex_stub
        ex_class_scope 3 ex_proto_f = Some (Some result, diags, prototype') \<and>
      MethodReturnTypeScoped \<in> set diags"
    using getSubroutine_out_of_block [of ex_proto_f "Some ex_definition" ex_definition
        getBitVectorRange "\<lambda>l r. l = r" "\<lambda>n. None" ex_stub ex_class_scope 3] match
    by (simp add: ex_proto_f_def ex_definition_def ex_T_def) blast
  have "getSubroutine getBitVectorRange (\<lambda>l r. l = r) (\<lambda>n. None) (Some ex_definition) ex_stub
     ex_class_scope 3 ex_proto_f =
   Some (Some (ex_stub\<lparr>outOfBlockIndex := 7, thisVar := True\<rparr>),
         snd (checkMethodMatch getBitVectorRange ex_proto_f (declFromSyntax ex_definition)) @
           [MethodReturnTypeScoped],
         ex_proto_f\<lparr>subroutine := Some (Some (ex_stub\<lparr>outOfBlockIndex := 7, thisVar := True\<rparr>))\<rparr>)"
    using ex match
    by (simp add: getSubroutine_def createOutOfBlock_def Let_def ex_proto_f_def
          ex_definition_def ex_stub_def ex_T_def checkMethodMatch_def isMatching.simps)
  with match show ?thesis by simp
qed

text \<open>
  Claim C9 as stated fails in two ways. When the definition does not agree with its
  prototype, the return type is not looked up: the definition of \<^verbatim>\<open>g\<close> lacks the
  argument, its return type \<^verbatim>\<open>T\<close> is a member of the class named by a simple name
  that the scope of the definition does not know, and \<^verbatim>\<open>MethodReturnTypeScoped\<close> is
  not among the diagnostics. And the flags are not always those of the prototype: for
  a prototype without flags that overrides a virtual method, the subroutine has the
  flag \<^verbatim>\<open>Virtual\<close>.
\<close>

theorem getSubroutine_counterexample:
  "getParentScope (symbolBase (getReturnType (declFromSyntax ex_definition))) =
     Some ex_class_scope \<and>
   declRetName ex_definition = ''T'' \<and>
   getSubroutine getBitVectorRange (\<lambda>l r. l = r) (\<lambda>n. None) (Some ex_definition) ex_stub
     ex_class_scope 3 ex_proto_g =
   Some (Some (ex_stub\<lparr>outOfBlockIndex := 7, thisVar := True\<rparr>), [MethodArgCountMismatch],
         ex_proto_g\<lparr>subroutine := Some (Some (ex_stub\<lparr>outOfBlockIndex := 7, thisVar := True\<rparr>))\<rparr>) \<and>
   flags ex_proto_override = {} \<and>
   getSubroutine getBitVectorRange (\<lambda>l r. l = r) (\<lambda>n. None) (Some ex_definition) ex_stub
     ex_class_scope 3 ex_proto_override =
   Some (Some (ex_stub\<lparr>flags := {MF_Virtual}, outOfBlockIndex := 7, thisVar := True\<rparr>),
         [MethodReturnTypeScoped],
         ex_proto_override\<lparr>subroutine :=
           Some (Some (ex_stub\<lparr>flags := {MF_Virtual}, outOfBlockIndex := 7, thisVar := True\<rparr>))\<rparr>)"
  by (simp add: getSubroutine_def createOutOfBlock_def Let_def ex_proto_g_def
        ex_proto_override_def ex_definition_def ex_stub_def ex_T_def checkMethodMatch_def
        isMatching.simps ex_arg_def)

end
